theory Spec2Isabelle
  imports Main "HOL-Library.Multiset"
begin

section \<open>JavaScript values\<close>

text \<open>
  Backend documents and write payloads are plain JavaScript objects whose attribute
  values are not constrained by the TypeScript types (the services read them through
  \<^verbatim>\<open>(doc as any)\<close> and \<^verbatim>\<open>Record<string, unknown>\<close>), so they are modelled as
  untyped values. An object is an association list from property names to values, in
  insertion order, with distinct keys. Numbers are modelled as integers: documents are
  decoded from JSON, and the only numeric attribute the services read is the integer
  display order; fractional numbers and NaN are outside the model.
\<close>

datatype jsval =
    JUndefined
  | JNull
  | JBool bool
  | JNum int
  | JStr string
  | JArr "jsval list"
  | JObj "(string \<times> jsval) list"

type_synonym document = "(string \<times> jsval) list"
type_synonym payload = "(string \<times> jsval) list"

text \<open>Property access \<^verbatim>\<open>obj.key\<close>: the value stored under the key, or \<^verbatim>\<open>undefined\<close>.\<close>

definition attr :: "(string \<times> jsval) list \<Rightarrow> string \<Rightarrow> jsval" where
  "attr obj k = (case map_of obj k of None \<Rightarrow> JUndefined | Some v \<Rightarrow> v)"

text \<open>\<^verbatim>\<open>Boolean(v)\<close>, the truthiness that \<^verbatim>\<open>||\<close>, \<^verbatim>\<open>&&\<close>, \<^verbatim>\<open>!\<close> and \<^verbatim>\<open>if\<close> test.\<close>

fun truthy :: "jsval \<Rightarrow> bool" where
  "truthy JUndefined = False"
| "truthy JNull = False"
| "truthy (JBool b) = b"
| "truthy (JNum n) = (n \<noteq> 0)"
| "truthy (JStr s) = (s \<noteq> [])"
| "truthy (JArr xs) = True"
| "truthy (JObj kvs) = True"

text \<open>\<^verbatim>\<open>a || b\<close>\<close>

definition js_or :: "jsval \<Rightarrow> jsval \<Rightarrow> jsval" where
  "js_or a b = (if truthy a then a else b)"


text \<open>\<^verbatim>\<open>typeof v === 'object'\<close> holds of \<^verbatim>\<open>null\<close>, arrays and objects.\<close>

fun typeof_object :: "jsval \<Rightarrow> bool" where
  "typeof_object JNull = True"
| "typeof_object (JArr xs) = True"
| "typeof_object (JObj kvs) = True"
| "typeof_object v = False"

definition digit_char :: "nat \<Rightarrow> char" where
  "digit_char d = ''0123456789'' ! (d mod 10)"

fun string_of_nat :: "nat \<Rightarrow> string" where
  "string_of_nat n =
     (if n < 10 then [digit_char n]
      else string_of_nat (n div 10) @ [digit_char (n mod 10)])"

definition string_of_int :: "int \<Rightarrow> string" where
  "string_of_int i =
     (if i < 0 then CHR ''-'' # string_of_nat (nat (- i)) else string_of_nat (nat i))"

text \<open>\<^verbatim>\<open>parts.join(sep)\<close> on strings.\<close>

fun join :: "string \<Rightarrow> string list \<Rightarrow> string" where
  "join sep [] = []"
| "join sep [x] = x"
| "join sep (x # y # ys) = x @ sep @ join sep (y # ys)"

text \<open>
  \<^verbatim>\<open>String(v)\<close>. An array is joined with commas, \<^verbatim>\<open>null\<close> and \<^verbatim>\<open>undefined\<close>
  elements giving the empty string; a plain object gives \<^verbatim>\<open>[object Object]\<close>.
\<close>

fun js_String :: "jsval \<Rightarrow> string" where
  "js_String JUndefined = ''undefined''"
| "js_String JNull = ''null''"
| "js_String (JBool b) = (if b then ''true'' else ''false'')"
| "js_String (JNum n) = string_of_int n"
| "js_String (JStr s) = s"
| "js_String (JArr xs) =
     join '','' (map (\<lambda>x. if x = JUndefined \<or> x = JNull then [] else js_String x) xs)"
| "js_String (JObj kvs) = ''[object Object]''"

text \<open>
  \<^verbatim>\<open>s.trim()\<close>: strips white space and line terminators at both ends. Strings are
  byte strings here, so the characters stripped are tab, line feed, vertical tab, form
  feed, carriage return and space.
\<close>

definition is_js_space :: "char \<Rightarrow> bool" where
  "is_js_space c = (c \<in> set [CHR 0x09, CHR 0x0A, CHR 0x0B, CHR 0x0C, CHR 0x0D, CHR '' ''])"

definition trim :: "string \<Rightarrow> string" where
  "trim s = rev (dropWhile is_js_space (rev (dropWhile is_js_space s)))"

text \<open>\<^verbatim>\<open>s.startsWith(p)\<close> and \<^verbatim>\<open>s.includes(sub)\<close>.\<close>

fun starts_with :: "string \<Rightarrow> string \<Rightarrow> bool" where
  "starts_with s [] = True"
| "starts_with [] (p # ps) = False"
| "starts_with (c # cs) (p # ps) = (c = p \<and> starts_with cs ps)"

fun js_includes :: "string \<Rightarrow> string \<Rightarrow> bool" where
  "js_includes [] sub = (sub = [])"
| "js_includes (c # cs) sub = (starts_with (c # cs) sub \<or> js_includes cs sub)"

text \<open>
  \<^verbatim>\<open>Object.entries(v)\<close> for a value that is an object or an array: an array's entries
  are keyed by its indices.
\<close>

fun object_entries :: "jsval \<Rightarrow> (string \<times> jsval) list" where
  "object_entries (JObj kvs) = kvs"
| "object_entries (JArr xs) = zip (map string_of_nat [0..<length xs]) xs"
| "object_entries v = []"


section \<open>Errors and configuration\<close>

text \<open>
  Every value the services catch is an \<^verbatim>\<open>Error\<close> object: the SDK's exception (a
  message, a numeric code and, in some SDK versions, the decoded response with its own
  message) or a plain \<^verbatim>\<open>Error\<close> made with \<^verbatim>\<open>new Error(message)\<close>, which has
  neither code nor response.
\<close>

record js_error =
  err_message :: string
  err_code :: "int option"
  err_response_message :: "string option"

definition new_Error :: "string \<Rightarrow> js_error" where
  "new_Error msg = \<lparr>err_message = msg, err_code = None, err_response_message = None\<rparr>"

text \<open>\<^verbatim>\<open>error.message || fallback\<close>\<close>

definition message_or :: "js_error \<Rightarrow> string \<Rightarrow> string" where
  "message_or e fallback = (if err_message e \<noteq> [] then err_message e else fallback)"

text \<open>The environment variables the services read; a variable may be unset.\<close>

record env =
  REACT_APP_APPWRITE_PROJECT_ID :: "string option"
  REACT_APP_APPWRITE_DATABASE_ID :: "string option"
  REACT_APP_APPWRITE_COLLECTION_USERS :: "string option"
  REACT_APP_APPWRITE_COLLECTION_PROJECTS :: "string option"
  REACT_APP_APPWRITE_BUCKET_MEDIA :: "string option"

text \<open>\<^verbatim>\<open>process.env.X || fallback\<close> and \<^verbatim>\<open>!process.env.X\<close>\<close>

definition env_or :: "string option \<Rightarrow> string \<Rightarrow> string" where
  "env_or v fallback = (case v of None \<Rightarrow> fallback | Some s \<Rightarrow> if s = [] then fallback else s)"

definition env_missing :: "string option \<Rightarrow> bool" where
  "env_missing v = (case v of None \<Rightarrow> True | Some s \<Rightarrow> s = [])"

definition DATABASE_ID :: "env \<Rightarrow> string" where
  "DATABASE_ID e = env_or (REACT_APP_APPWRITE_DATABASE_ID e) []"

definition COLLECTION_USERS :: "env \<Rightarrow> string" where
  "COLLECTION_USERS e = env_or (REACT_APP_APPWRITE_COLLECTION_USERS e) ''users''"

definition COLLECTION_PROJECTS :: "env \<Rightarrow> string" where
  "COLLECTION_PROJECTS e = env_or (REACT_APP_APPWRITE_COLLECTION_PROJECTS e) ''projects''"

text \<open>
  \<^verbatim>\<open>validateConfig\<close> of the authentication service: \<open>Some\<close> the error it throws, or
  \<open>None\<close> when it returns.
\<close>

definition validateConfig :: "env \<Rightarrow> js_error option" where
  "validateConfig e =
     (let missingVars =
            (if env_missing (REACT_APP_APPWRITE_PROJECT_ID e)
             then [''REACT_APP_APPWRITE_PROJECT_ID''] else []) @
            (if env_missing (REACT_APP_APPWRITE_DATABASE_ID e)
             then [''REACT_APP_APPWRITE_DATABASE_ID''] else []) @
            (if env_missing (REACT_APP_APPWRITE_COLLECTION_USERS e)
             then [''REACT_APP_APPWRITE_COLLECTION_USERS''] else [])
      in if length missingVars > 0
         then Some (new_Error (''Missing required environment variables: '' @
                join '', '' missingVars @ ''. Please check your .env file configuration.''))
         else None)"

text \<open>\<^verbatim>\<open>validateConfig\<close> of the portfolio service.\<close>

definition validateConfig_portfolio :: "env \<Rightarrow> js_error option" where
  "validateConfig_portfolio e =
     (let requiredVars =
            [(''REACT_APP_APPWRITE_PROJECT_ID'', REACT_APP_APPWRITE_PROJECT_ID e),
             (''REACT_APP_APPWRITE_DATABASE_ID'', REACT_APP_APPWRITE_DATABASE_ID e),
             (''REACT_APP_APPWRITE_COLLECTION_PROJECTS'', REACT_APP_APPWRITE_COLLECTION_PROJECTS e),
             (''REACT_APP_APPWRITE_BUCKET_MEDIA'', REACT_APP_APPWRITE_BUCKET_MEDIA e)];
          missingVars = map fst (filter (\<lambda>(key, v). env_missing v) requiredVars)
      in if length missingVars > 0
         then Some (new_Error (''Missing or empty required environment variables: '' @
                join '', '' missingVars @ ''. Please check your .env file configuration.''))
         else None)"


section \<open>Record mapper\<close>

text \<open>
  The entities. The TypeScript interfaces declare the text fields as strings, but the
  mappers fill them with \<^verbatim>\<open>(doc as any).field || ''\<close>, which passes any truthy value
  through unchanged; those fields therefore hold untyped values in the model. The list
  fields, the social links, the flags and the display order are built by coercions and
  have their declared types.
\<close>

record User =
  u_id :: jsval
  u_name :: jsval
  u_email :: jsval
  u_bio :: jsval
  u_avatar :: jsval
  u_website :: jsval
  u_location :: jsval
  u_pronouns :: jsval
  u_availability :: jsval
  u_skills :: "string list"
  u_socialLinks :: "(string \<times> string) list"
  u_createdAt :: jsval
  u_updatedAt :: jsval
  u_createdBy :: jsval

record Project =
  p_id :: jsval
  p_title :: jsval
  p_description :: jsval
  p_category :: jsval
  p_tags :: "string list"
  p_images :: "string list"
  p_videos :: "string list"
  p_documents :: "string list"
  p_isPublic :: bool
  p_featured :: bool
  p_order :: int
  p_userId :: jsval
  p_createdBy :: jsval
  p_coverImage :: jsval
  p_liveUrl :: jsval
  p_sourceUrl :: jsval
  p_startDate :: jsval
  p_endDate :: jsval
  p_highlights :: "string list"
  p_techStack :: "string list"
  p_createdAt :: jsval
  p_updatedAt :: jsval

text \<open>\<^verbatim>\<open>Array.isArray(value) ? value.map(item => String(item)) : []\<close>\<close>

fun toStringArray :: "jsval \<Rightarrow> string list" where
  "toStringArray (JArr xs) = map js_String xs"
| "toStringArray v = []"

text \<open>
  \<^verbatim>\<open>normalizeSocialLinks\<close>: the entries of an object (or array) whose value is a
  non-empty string; anything else gives the empty mapping.
\<close>

definition string_entries :: "(string \<times> jsval) list \<Rightarrow> (string \<times> string) list" where
  "string_entries kvs =
     concat (map (\<lambda>(k, v). case v of JStr s \<Rightarrow> if s \<noteq> [] then [(k, s)] else [] | _ \<Rightarrow> []) kvs)"

definition normalizeSocialLinks :: "jsval \<Rightarrow> (string \<times> string) list" where
  "normalizeSocialLinks v =
     (if \<not> truthy v \<or> \<not> typeof_object v then []
      else let entries = string_entries (object_entries v)
           in if length entries = 0 then [] else entries)"

text \<open>
  \<^verbatim>\<open>mapUserDocument\<close>. The source's \<^verbatim>\<open>normalizeSocialLinks(...) || {}\<close> never takes
  its right operand, an object being truthy.
\<close>

definition mapUserDocument :: "document \<Rightarrow> User" where
  "mapUserDocument doc =
     \<lparr>u_id = attr doc ''$id'',
      u_name = js_or (attr doc ''name'') (JStr []),
      u_email = js_or (attr doc ''email'') (JStr []),
      u_bio = js_or (attr doc ''bio'') (JStr []),
      u_avatar = js_or (attr doc ''avatar'') (JStr []),
      u_website = js_or (attr doc ''website'') (JStr []),
      u_location = js_or (attr doc ''location'') (JStr []),
      u_pronouns = js_or (attr doc ''pronouns'') (JStr []),
      u_availability = js_or (attr doc ''availability'') (JStr []),
      u_skills = toStringArray (attr doc ''skills''),
      u_socialLinks = normalizeSocialLinks (attr doc ''socialLinks''),
      u_createdAt = attr doc ''$createdAt'',
      u_updatedAt = attr doc ''$updatedAt'',
      u_createdBy = js_or (attr doc ''createdBy'') (JStr [])\<rparr>"

text \<open>\<^verbatim>\<open>xs[0]\<close> on a string array: \<^verbatim>\<open>undefined\<close> when the array is empty.\<close>

definition first_or_undefined :: "string list \<Rightarrow> jsval" where
  "first_or_undefined xs = (case xs of [] \<Rightarrow> JUndefined | x # _ \<Rightarrow> JStr x)"

definition mapProjectDoc :: "document \<Rightarrow> Project" where
  "mapProjectDoc doc =
     \<lparr>p_id = attr doc ''$id'',
      p_title = js_or (attr doc ''title'') (JStr []),
      p_description = js_or (attr doc ''description'') (JStr []),
      p_category = js_or (attr doc ''category'') (JStr ''uncategorized''),
      p_tags = toStringArray (attr doc ''tags''),
      p_images = toStringArray (attr doc ''images''),
      p_videos = toStringArray (attr doc ''videos''),
      p_documents = toStringArray (attr doc ''documents''),
      p_isPublic = (if attr doc ''isPublic'' \<noteq> JUndefined then truthy (attr doc ''isPublic'') else True),
      p_featured = truthy (attr doc ''featured''),
      p_order = (case attr doc ''order'' of JNum n \<Rightarrow> n | _ \<Rightarrow> 0),
      p_userId = js_or (attr doc ''userId'') (js_or (attr doc ''createdBy'') (JStr [])),
      p_createdBy = js_or (attr doc ''createdBy'') (js_or (attr doc ''userId'') (JStr [])),
      p_coverImage =
        js_or (attr doc ''coverImage'')
          (js_or (first_or_undefined (toStringArray (attr doc ''images''))) (JStr [])),
      p_liveUrl = js_or (attr doc ''liveUrl'') (JStr []),
      p_sourceUrl = js_or (attr doc ''sourceUrl'') (JStr []),
      p_startDate = js_or (attr doc ''startDate'') (JStr []),
      p_endDate = js_or (attr doc ''endDate'') (JStr []),
      p_highlights = toStringArray (attr doc ''highlights''),
      p_techStack = toStringArray (attr doc ''techStack''),
      p_createdAt = attr doc ''$createdAt'',
      p_updatedAt = attr doc ''$updatedAt''\<rparr>"


section \<open>Schema-drift-tolerant writer\<close>

subsection \<open>Detecting the unknown attribute\<close>

text \<open>
  \<^verbatim>\<open>extractUnknownAttribute\<close> reads the error's message (or, when that is empty, the
  response's message) and matches it against the regular expression
  \<^verbatim>\<open>/Unknown attribute: "(.+?)"/\<close>: at the leftmost position where the literal prefix
  is followed by at least one character other than a line terminator and then a double
  quote, the group is the shortest such run of characters.
\<close>

definition error_text :: "js_error \<Rightarrow> string option" where
  "error_text e =
     (if err_message e \<noteq> [] then Some (err_message e)
      else case err_response_message e of
             None \<Rightarrow> None
           | Some m \<Rightarrow> if m \<noteq> [] then Some m else None)"

definition is_line_terminator :: "char \<Rightarrow> bool" where
  "is_line_terminator c = (c = CHR 0x0A \<or> c = CHR 0x0D)"

definition unknown_attribute_prefix :: string where
  "unknown_attribute_prefix = ''Unknown attribute: '' @ [CHR 0x22]"

fun lazy_group :: "string \<Rightarrow> string \<Rightarrow> string option" where
  "lazy_group acc [] = None"
| "lazy_group acc (c # cs) =
     (if c = CHR 0x22 then Some (rev acc)
      else if is_line_terminator c then None
      else lazy_group (c # acc) cs)"

definition match_group :: "string \<Rightarrow> string option" where
  "match_group s =
     (case s of
        [] \<Rightarrow> None
      | c # cs \<Rightarrow> if is_line_terminator c then None else lazy_group [c] cs)"

fun match_unknown_attribute :: "string \<Rightarrow> string option" where
  "match_unknown_attribute [] = None"
| "match_unknown_attribute (c # cs) =
     (if starts_with (c # cs) unknown_attribute_prefix
      then (case match_group (drop (length unknown_attribute_prefix) (c # cs)) of
              Some g \<Rightarrow> Some g
            | None \<Rightarrow> match_unknown_attribute cs)
      else match_unknown_attribute cs)"

definition extractUnknownAttribute :: "js_error \<Rightarrow> string option" where
  "extractUnknownAttribute e =
     (case error_text e of
        None \<Rightarrow> None
      | Some message \<Rightarrow> match_unknown_attribute message)"

subsection \<open>The backend and the session state\<close>

text \<open>
  The backend service is an external collaborator. Every request the services make is
  recorded in a trace, and the backend is any family of functions that answer a request
  given the requests made before it, so that its answers may change from one attempt to
  the next. The identifier \<^verbatim>\<open>ID.unique()\<close> generates is an argument of the model.
\<close>

datatype query = Query_equal string jsval | Query_orderAsc string

datatype call =
    Account_get
  | Account_create string string string string
  | Account_createEmailPasswordSession string string
  | Account_deleteSessions
  | Account_updateName jsval
  | Databases_getDocument string string string
  | Databases_createDocument string string string payload
  | Databases_updateDocument string string string payload
  | Databases_listDocuments string string "query list"

record account =
  acc_id :: string
  acc_email :: string
  acc_name :: string

record backend =
  reply_account :: "call list \<Rightarrow> call \<Rightarrow> js_error + account"
  reply_void :: "call list \<Rightarrow> call \<Rightarrow> js_error option"
  reply_document :: "call list \<Rightarrow> call \<Rightarrow> js_error + document"
  reply_documents :: "call list \<Rightarrow> call \<Rightarrow> js_error + document list"

text \<open>
  The state a session carries: the trace of requests and the module-level set
  \<^verbatim>\<open>USER_UPDATE_FIELDS\<close>, which the writer shrinks.
\<close>

record world =
  w_trace :: "call list"
  USER_UPDATE_FIELDS :: "string list"

definition initial_USER_UPDATE_FIELDS :: "string list" where
  "initial_USER_UPDATE_FIELDS =
     [''name'', ''bio'', ''avatar'', ''website'', ''location'', ''pronouns'',
      ''availability'', ''skills'', ''socialLinks'']"

definition initial_world :: world where
  "initial_world = \<lparr>w_trace = [], USER_UPDATE_FIELDS = initial_USER_UPDATE_FIELDS\<rparr>"

definition logged :: "call \<Rightarrow> world \<Rightarrow> world" where
  "logged c w = w\<lparr>w_trace := w_trace w @ [c]\<rparr>"

definition isUserUpdatableField :: "world \<Rightarrow> string \<Rightarrow> bool" where
  "isUserUpdatableField w v = (v \<in> set (USER_UPDATE_FIELDS w))"

text \<open>
  \<^verbatim>\<open>if (isUserUpdatableField(a)) { USER_UPDATE_FIELDS.delete(a); }\<close>
\<close>

definition forget_field :: "string \<Rightarrow> world \<Rightarrow> world" where
  "forget_field a w =
     (if isUserUpdatableField w a
      then w\<lparr>USER_UPDATE_FIELDS := removeAll a (USER_UPDATE_FIELDS w)\<rparr>
      else w)"

text \<open>\<^verbatim>\<open>delete payload[a]\<close>\<close>

definition delete_key :: "string \<Rightarrow> payload \<Rightarrow> payload" where
  "delete_key a p = filter (\<lambda>(k, v). k \<noteq> a) p"

subsection \<open>Sanitising an update\<close>

definition sanitize_value :: "string \<Rightarrow> jsval \<Rightarrow> jsval" where
  "sanitize_value key v =
     (case (key = ''skills'', v) of
        (True, JArr items) \<Rightarrow>
          JArr (map JStr (filter (\<lambda>s. s \<noteq> [])
            (map (\<lambda>skill. case skill of JStr s \<Rightarrow> trim s | _ \<Rightarrow> []) items)))
      | _ \<Rightarrow>
          if key = ''socialLinks'' \<and> truthy v \<and> typeof_object v
          then JObj (map (\<lambda>(linkKey, s). (linkKey, JStr (trim s)))
                 (filter (\<lambda>(linkKey, s). length (trim s) > 0)
                   (concat (map (\<lambda>(linkKey, link).
                      case link of JStr s \<Rightarrow> [(linkKey, s)] | _ \<Rightarrow> []) (object_entries v)))))
          else (case v of JStr s \<Rightarrow> JStr (trim s) | _ \<Rightarrow> v))"

definition sanitizeUserUpdateData :: "world \<Rightarrow> (string \<times> jsval) list \<Rightarrow> payload" where
  "sanitizeUserUpdateData w data =
     map (\<lambda>(key, v). (key, sanitize_value key v))
       (filter (\<lambda>(key, v). isUserUpdatableField w key \<and> v \<noteq> JUndefined) data)"

subsection \<open>Creating the user document\<close>

text \<open>
  The \<^verbatim>\<open>while (true)\<close> loop of \<^verbatim>\<open>createUserDocument\<close>. One unit of fuel is one
  attempt; \<open>None\<close> means the loop has not returned within the attempts allowed.
\<close>

definition no_valid_fields :: js_error where
  "no_valid_fields = new_Error ''Unable to create user profile. No valid fields remain.''"

fun createUserDocument ::
  "nat \<Rightarrow> backend \<Rightarrow> env \<Rightarrow> string \<Rightarrow> payload \<Rightarrow> world \<Rightarrow> ((js_error + document) \<times> world) option"
where
  "createUserDocument 0 b e userId payload w = None"
| "createUserDocument (Suc fuel) b e userId payload w =
     (let c = Databases_createDocument (DATABASE_ID e) (COLLECTION_USERS e) userId payload;
          w1 = logged c w
      in case reply_document b (w_trace w) c of
           Inr doc \<Rightarrow> Some (Inr doc, w1)
         | Inl error \<Rightarrow>
             (case extractUnknownAttribute error of
                Some unknownAttribute \<Rightarrow>
                  if unknownAttribute \<in> set [''name'', ''email'', ''createdBy'']
                  then Some (Inl error, w1)
                  else
                    let payload' = delete_key unknownAttribute payload;
                        w2 = forget_field unknownAttribute w1
                    in if length payload' = 0 then Some (Inl no_valid_fields, w2)
                       else createUserDocument fuel b e userId payload' w2
              | None \<Rightarrow> Some (Inl error, w1)))"

subsection \<open>Updating the profile\<close>

text \<open>The \<^verbatim>\<open>while (true)\<close> loop of \<^verbatim>\<open>updateProfile\<close>; one unit of fuel is one round.\<close>

fun updateProfile_loop ::
  "nat \<Rightarrow> backend \<Rightarrow> env \<Rightarrow> string \<Rightarrow> payload \<Rightarrow> world \<Rightarrow> ((js_error + User) \<times> world) option"
where
  "updateProfile_loop 0 b e accountId remainingPayload w = None"
| "updateProfile_loop (Suc fuel) b e accountId remainingPayload w =
     (if length remainingPayload = 0
      then
        (let c = Databases_getDocument (DATABASE_ID e) (COLLECTION_USERS e) accountId
         in case reply_document b (w_trace w) c of
              Inl error \<Rightarrow> Some (Inl error, logged c w)
            | Inr existingDoc \<Rightarrow> Some (Inr (mapUserDocument existingDoc), logged c w))
      else
        (let c = Databases_updateDocument (DATABASE_ID e) (COLLECTION_USERS e) accountId
                   remainingPayload;
             w1 = logged c w
         in case reply_document b (w_trace w) c of
              Inr userDoc \<Rightarrow> Some (Inr (mapUserDocument userDoc), w1)
            | Inl error \<Rightarrow>
                (case extractUnknownAttribute error of
                   Some unknownAttribute \<Rightarrow>
                     updateProfile_loop fuel b e accountId
                       (delete_key unknownAttribute remainingPayload)
                       (forget_field unknownAttribute w1)
                 | None \<Rightarrow> Some (Inl error, w1))))"

text \<open>
  \<^verbatim>\<open>updateProfile\<close>. A failure of \<^verbatim>\<open>account.updateName\<close> is only logged, so its
  answer is not consulted. Whatever is thrown inside is rethrown as a new error with the
  same message.
\<close>

definition profile_update_failed :: "js_error \<Rightarrow> js_error" where
  "profile_update_failed error =
     new_Error (message_or error ''Profile update failed. Please try again.'')"

definition updateProfile ::
  "nat \<Rightarrow> backend \<Rightarrow> env \<Rightarrow> (string \<times> jsval) list \<Rightarrow> world \<Rightarrow> ((js_error + User) \<times> world) option"
where
  "updateProfile fuel b e data w =
     (case validateConfig e of
        Some error \<Rightarrow> Some (Inl (profile_update_failed error), w)
      | None \<Rightarrow>
          (case reply_account b (w_trace w) Account_get of
             Inl error \<Rightarrow> Some (Inl (profile_update_failed error), logged Account_get w)
           | Inr accountData \<Rightarrow>
               (let w1 = logged Account_get w;
                    w2 = (if truthy (attr data ''name'')
                          then logged (Account_updateName (attr data ''name'')) w1 else w1);
                    remainingPayload = sanitizeUserUpdateData w2 data
                in case updateProfile_loop fuel b e (acc_id accountData) remainingPayload w2 of
                     None \<Rightarrow> None
                   | Some (Inl error, w3) \<Rightarrow> Some (Inl (profile_update_failed error), w3)
                   | Some (Inr user, w3) \<Rightarrow> Some (Inr user, w3))))"


section \<open>Session and profile manager\<close>

definition isLoggedIn :: "backend \<Rightarrow> world \<Rightarrow> bool \<times> world" where
  "isLoggedIn b w =
     (case reply_account b (w_trace w) Account_get of
        Inl error \<Rightarrow> (False, logged Account_get w)
      | Inr accountData \<Rightarrow> (True, logged Account_get w))"

text \<open>
  The \<^verbatim>\<open>catch\<close> block of \<^verbatim>\<open>getCurrentUser\<close>: three configuration problems are
  rethrown, every other failure gives \<^verbatim>\<open>null\<close>.
\<close>

definition message_includes :: "js_error \<Rightarrow> string \<Rightarrow> bool" where
  "message_includes error sub = (err_message error \<noteq> [] \<and> js_includes (err_message error) sub)"

definition getCurrentUser_catch :: "env \<Rightarrow> js_error \<Rightarrow> js_error + User option" where
  "getCurrentUser_catch e error =
     (if message_includes error ''Missing required environment variables''
      then Inl (new_Error (''Configuration error: Missing required environment variables. '' @
                  ''Please check your .env file configuration.''))
      else if message_includes error ''Collection with the requested ID could not be found''
      then Inl (new_Error (''Configuration error: Collection '' @ [CHR 0x27] @ COLLECTION_USERS e @
                  [CHR 0x27] @ '' not found in database '' @ [CHR 0x27] @ DATABASE_ID e @
                  [CHR 0x27] @ ''. Please check your Appwrite configuration.''))
      else if message_includes error ''Database with the requested ID could not be found''
      then Inl (new_Error (''Configuration error: Database '' @ [CHR 0x27] @ DATABASE_ID e @
                  [CHR 0x27] @ '' not found. Please check your Appwrite configuration.''))
      else Inr None)"

definition getCurrentUser :: "backend \<Rightarrow> env \<Rightarrow> world \<Rightarrow> (js_error + User option) \<times> world" where
  "getCurrentUser b e w =
     (case validateConfig e of
        Some error \<Rightarrow> (getCurrentUser_catch e error, w)
      | None \<Rightarrow>
          (case reply_account b (w_trace w) Account_get of
             Inl error \<Rightarrow> (getCurrentUser_catch e error, logged Account_get w)
           | Inr accountData \<Rightarrow>
               (let w1 = logged Account_get w;
                    c = Databases_getDocument (DATABASE_ID e) (COLLECTION_USERS e)
                          (acc_id accountData)
                in case reply_document b (w_trace w1) c of
                     Inl error \<Rightarrow> (getCurrentUser_catch e error, logged c w1)
                   | Inr userDoc \<Rightarrow> (Inr (Some (mapUserDocument userDoc)), logged c w1))))"

text \<open>
  \<^verbatim>\<open>getUserProfile\<close>: an error whose code is 404 gives \<^verbatim>\<open>null\<close>, any other is
  rethrown with its message.
\<close>

definition getUserProfile_catch :: "js_error \<Rightarrow> js_error + User option" where
  "getUserProfile_catch error =
     (if err_code error = Some 404 then Inr None
      else Inl (new_Error (message_or error ''Unable to load user profile.'')))"

definition getUserProfile ::
  "backend \<Rightarrow> env \<Rightarrow> string \<Rightarrow> world \<Rightarrow> (js_error + User option) \<times> world"
where
  "getUserProfile b e userId w =
     (case validateConfig e of
        Some error \<Rightarrow> (getUserProfile_catch error, w)
      | None \<Rightarrow>
          (let c = Databases_getDocument (DATABASE_ID e) (COLLECTION_USERS e) userId
           in case reply_document b (w_trace w) c of
                Inl error \<Rightarrow> (getUserProfile_catch error, logged c w)
              | Inr userDoc \<Rightarrow> (Inr (Some (mapUserDocument userDoc)), logged c w)))"

text \<open>
  \<^verbatim>\<open>logoutAllSessions\<close>: a failure is swallowed when its message is empty or mentions
  \<^verbatim>\<open>session\<close> or \<^verbatim>\<open>not found\<close>, and rethrown otherwise.
\<close>

definition logoutAllSessions :: "backend \<Rightarrow> world \<Rightarrow> js_error option \<times> world" where
  "logoutAllSessions b w =
     (case reply_void b (w_trace w) Account_deleteSessions of
        None \<Rightarrow> (None, logged Account_deleteSessions w)
      | Some error \<Rightarrow>
          (if err_message error \<noteq> [] \<and> \<not> js_includes (err_message error) ''session''
               \<and> \<not> js_includes (err_message error) ''not found''
           then (Some error, logged Account_deleteSessions w)
           else (None, logged Account_deleteSessions w)))"

text \<open>
  \<^verbatim>\<open>login\<close>, in parts: the creation of a missing profile document, what follows a
  successful session creation, the request for the new session, the body of the outer
  \<^verbatim>\<open>try\<close>, and the outer \<^verbatim>\<open>catch\<close>. The 100 ms pause after the session is created
  has no counterpart here. The fuel is that of \<^verbatim>\<open>createUserDocument\<close>.
\<close>

definition login_config_error :: js_error where
  "login_config_error =
     new_Error (''Failed to get user after login. Please check your Appwrite configuration '' @
                ''(DATABASE_ID and COLLECTION_USERS)'')"

definition login_create_document ::
  "nat \<Rightarrow> backend \<Rightarrow> env \<Rightarrow> world \<Rightarrow> ((js_error + User) \<times> world) option"
where
  "login_create_document fuel b e w =
     (case reply_account b (w_trace w) Account_get of
        Inl creationError \<Rightarrow> Some (Inl login_config_error, logged Account_get w)
      | Inr accountData \<Rightarrow>
          (case createUserDocument fuel b e (acc_id accountData)
                  [(''email'', JStr (acc_email accountData)),
                   (''name'', JStr (acc_name accountData)),
                   (''createdBy'', JStr (acc_id accountData))]
                  (logged Account_get w) of
             None \<Rightarrow> None
           | Some (Inl creationError, w1) \<Rightarrow> Some (Inl login_config_error, w1)
           | Some (Inr userDoc, w1) \<Rightarrow>
               (case getCurrentUser b e w1 of
                  (Inl creationError, w2) \<Rightarrow> Some (Inl login_config_error, w2)
                | (Inr None, w2) \<Rightarrow> Some (Inl login_config_error, w2)
                | (Inr (Some newUser), w2) \<Rightarrow> Some (Inr newUser, w2))))"

definition login_after_session ::
  "nat \<Rightarrow> backend \<Rightarrow> env \<Rightarrow> world \<Rightarrow> ((js_error + User) \<times> world) option"
where
  "login_after_session fuel b e w =
     (case getCurrentUser b e w of
        (Inl error, w1) \<Rightarrow> Some (Inl error, w1)
      | (Inr None, w1) \<Rightarrow> login_create_document fuel b e w1
      | (Inr (Some user), w1) \<Rightarrow> Some (Inr user, w1))"

definition login_new_session ::
  "nat \<Rightarrow> backend \<Rightarrow> env \<Rightarrow> string \<Rightarrow> string \<Rightarrow> world \<Rightarrow> ((js_error + User) \<times> world) option"
where
  "login_new_session fuel b e email password w =
     (let c = Account_createEmailPasswordSession email password
      in case reply_void b (w_trace w) c of
           Some error \<Rightarrow> Some (Inl error, logged c w)
         | None \<Rightarrow> login_after_session fuel b e (logged c w))"

definition login_body ::
  "nat \<Rightarrow> backend \<Rightarrow> env \<Rightarrow> string \<Rightarrow> string \<Rightarrow> world \<Rightarrow> ((js_error + User) \<times> world) option"
where
  "login_body fuel b e email password w =
     (case isLoggedIn b w of
        (False, w1) \<Rightarrow> login_new_session fuel b e email password w1
      | (True, w1) \<Rightarrow>
          (case getCurrentUser b e w1 of
             (Inl error, w2) \<Rightarrow> Some (Inl error, w2)
           | (Inr currentUser, w2) \<Rightarrow>
               (case currentUser of
                  Some user \<Rightarrow>
                    if u_email user = JStr email then Some (Inr user, w2)
                    else login_new_session fuel b e email password (snd (logoutAllSessions b w2))
                | None \<Rightarrow>
                    login_new_session fuel b e email password (snd (logoutAllSessions b w2)))))"

definition login_failed :: "js_error \<Rightarrow> js_error" where
  "login_failed error =
     (if message_includes error ''session''
      then new_Error ''Session conflict detected. Please try again.''
      else new_Error (message_or error ''Login failed. Please try again.''))"

definition login ::
  "nat \<Rightarrow> backend \<Rightarrow> env \<Rightarrow> string \<Rightarrow> string \<Rightarrow> world \<Rightarrow> ((js_error + User) \<times> world) option"
where
  "login fuel b e email password w =
     (case login_body fuel b e email password w of
        None \<Rightarrow> None
      | Some (Inl error, w1) \<Rightarrow> Some (Inl (login_failed error), w1)
      | Some (Inr user, w1) \<Rightarrow> Some (Inr user, w1))"

text \<open>\<^verbatim>\<open>register\<close>; \<open>newId\<close> is the identifier \<^verbatim>\<open>ID.unique()\<close> generates.\<close>

definition registration_failed :: "js_error \<Rightarrow> js_error" where
  "registration_failed error =
     new_Error (message_or error ''Registration failed. Please try again.'')"

definition defaultProfileData :: "world \<Rightarrow> payload" where
  "defaultProfileData w =
     sanitizeUserUpdateData w
       [(''bio'', JStr []), (''avatar'', JStr []), (''website'', JStr []),
        (''location'', JStr []), (''pronouns'', JStr []), (''availability'', JStr []),
        (''skills'', JArr []), (''socialLinks'', JObj [])]"

definition register ::
  "nat \<Rightarrow> backend \<Rightarrow> env \<Rightarrow> string \<Rightarrow> string \<Rightarrow> string \<Rightarrow> string \<Rightarrow> world
     \<Rightarrow> ((js_error + User) \<times> world) option"
where
  "register fuel b e newId email password name w =
     (case validateConfig e of
        Some error \<Rightarrow> Some (Inl (registration_failed error), w)
      | None \<Rightarrow>
          (let c = Account_create newId email password name
           in case reply_account b (w_trace w) c of
                Inl error \<Rightarrow> Some (Inl (registration_failed error), logged c w)
              | Inr accountData \<Rightarrow>
                  (case createUserDocument fuel b e (acc_id accountData)
                          ([(''name'', JStr name), (''email'', JStr email),
                            (''createdBy'', JStr (acc_id accountData))]
                           @ defaultProfileData (logged c w))
                          (logged c w) of
                     None \<Rightarrow> None
                   | Some (Inl error, w1) \<Rightarrow> Some (Inl (registration_failed error), w1)
                   | Some (Inr userDoc, w1) \<Rightarrow> Some (Inr (mapUserDocument userDoc), w1))))"

text \<open>A session: a sequence of requests to the authentication service, sharing its state.\<close>

datatype request =
    Register string string string string
  | Login string string
  | UpdateProfile "(string \<times> jsval) list"

definition perform :: "nat \<Rightarrow> backend \<Rightarrow> env \<Rightarrow> request \<Rightarrow> world \<Rightarrow> world option" where
  "perform fuel b e r w =
     (case r of
        Register newId email password name \<Rightarrow>
          map_option snd (register fuel b e newId email password name w)
      | Login email password \<Rightarrow> map_option snd (login fuel b e email password w)
      | UpdateProfile data \<Rightarrow> map_option snd (updateProfile fuel b e data w))"

fun session :: "nat \<Rightarrow> backend \<Rightarrow> env \<Rightarrow> request list \<Rightarrow> world \<Rightarrow> world option" where
  "session fuel b e [] w = Some w"
| "session fuel b e (r # rs) w =
     (case perform fuel b e r w of
        None \<Rightarrow> None
      | Some w1 \<Rightarrow> session fuel b e rs w1)"


section \<open>Listing pipeline\<close>

text \<open>
  The comparator of \<^verbatim>\<open>getProjects\<close> (and of \<^verbatim>\<open>sortProjects\<close> in the portfolio
  hook, which is the same function). \<^verbatim>\<open>new Date(v).getTime()\<close> is a parameter,
  \<open>getTime\<close>; creation timestamps are set by the backend, so it is taken to give a number.
\<close>

definition compareProjects :: "(jsval \<Rightarrow> int) \<Rightarrow> Project \<Rightarrow> Project \<Rightarrow> int" where
  "compareProjects getTime a b =
     (if p_order a \<noteq> p_order b then p_order a - p_order b
      else (let aTime = getTime (p_createdAt a);
                bTime = getTime (p_createdAt b)
            in bTime - aTime))"

text \<open>
  \<^verbatim>\<open>Array.prototype.sort\<close> with a comparator is a stable sort: elements that compare
  equal keep their order. It is modelled by a stable insertion sort.
\<close>

fun js_insert :: "('a \<Rightarrow> 'a \<Rightarrow> int) \<Rightarrow> 'a \<Rightarrow> 'a list \<Rightarrow> 'a list" where
  "js_insert cmp x [] = [x]"
| "js_insert cmp x (y # ys) = (if cmp x y \<le> 0 then x # y # ys else y # js_insert cmp x ys)"

definition js_sort :: "('a \<Rightarrow> 'a \<Rightarrow> int) \<Rightarrow> 'a list \<Rightarrow> 'a list" where
  "js_sort cmp xs = foldr (js_insert cmp) xs []"


text \<open>
  \<^verbatim>\<open>getProjects\<close>. The owner identifier is optional; the source tests it for
  truthiness, so the empty string counts as absent.
\<close>

definition project_queries :: "string option \<Rightarrow> query list" where
  "project_queries userId =
     (case userId of
        None \<Rightarrow> [Query_equal ''isPublic'' (JBool True)]
      | Some u \<Rightarrow>
          if u \<noteq> [] then [Query_equal ''userId'' (JStr u)]
          else [Query_equal ''isPublic'' (JBool True)])
     @ [Query_orderAsc ''order'']"

definition fetch_failed :: "js_error \<Rightarrow> js_error" where
  "fetch_failed error =
     new_Error (message_or error ''Failed to fetch projects. Please try again.'')"

definition getProjects ::
  "(jsval \<Rightarrow> int) \<Rightarrow> backend \<Rightarrow> env \<Rightarrow> string option \<Rightarrow> world
     \<Rightarrow> (js_error + Project list) \<times> world"
where
  "getProjects getTime b e userId w =
     (case validateConfig_portfolio e of
        Some error \<Rightarrow> (Inl (fetch_failed error), w)
      | None \<Rightarrow>
          (let c = Databases_listDocuments (DATABASE_ID e) (COLLECTION_PROJECTS e)
                     (project_queries userId)
           in case reply_documents b (w_trace w) c of
                Inl error \<Rightarrow> (Inl (fetch_failed error), logged c w)
              | Inr documents \<Rightarrow>
                  (Inr (js_sort (compareProjects getTime) (map mapProjectDoc documents)),
                   logged c w)))"

text \<open>
  The backend's list operation is outside the repository. A reply honours a request's
  filters over a stored collection when it holds exactly the stored documents that
  satisfy every equality filter, in any order.
\<close>

fun query_matches :: "document \<Rightarrow> query \<Rightarrow> bool" where
  "query_matches d (Query_equal k v) = (attr d k = v)"
| "query_matches d (Query_orderAsc k) = True"

definition honours_filters :: "document list \<Rightarrow> query list \<Rightarrow> document list \<Rightarrow> bool" where
  "honours_filters stored queries documents =
     (mset documents = mset (filter (\<lambda>d. list_all (query_matches d) queries) stored))"


section \<open>Vocabulary of the properties\<close>

subsection \<open>Type-correct entities\<close>







subsection \<open>Requests issued, and backends that name submitted fields\<close>

text \<open>The requests issued between two states of a session.\<close>

definition new_calls :: "world \<Rightarrow> world \<Rightarrow> call list" where
  "new_calls w w' = drop (length (w_trace w)) (w_trace w')"

definition extends :: "world \<Rightarrow> world \<Rightarrow> bool" where
  "extends w w' = (\<exists>cs. w_trace w' = w_trace w @ cs)"

fun touches_sessions :: "call \<Rightarrow> bool" where
  "touches_sessions (Account_createEmailPasswordSession email password) = True"
| "touches_sessions Account_deleteSessions = True"
| "touches_sessions c = False"

text \<open>
  A backend names submitted fields when every unknown-attribute failure of a write
  names a field of the payload that was submitted.
\<close>

definition names_submitted_field :: "call \<Rightarrow> string \<Rightarrow> bool" where
  "names_submitted_field c a =
     (case c of
        Databases_createDocument db coll docId p \<Rightarrow> a \<in> fst ` set p
      | Databases_updateDocument db coll docId p \<Rightarrow> a \<in> fst ` set p
      | _ \<Rightarrow> True)"

definition drift_honest :: "backend \<Rightarrow> bool" where
  "drift_honest b =
     (\<forall>tr c error a. reply_document b tr c = Inl error \<longrightarrow>
        extractUnknownAttribute error = Some a \<longrightarrow> names_submitted_field c a)"

text \<open>
  A creation request that still carries every identity field (\<^verbatim>\<open>name\<close>, \<^verbatim>\<open>email\<close>,
  \<^verbatim>\<open>createdBy\<close>) of the payload the writer was given.
\<close>

definition submits_identity_fields :: "payload \<Rightarrow> call \<Rightarrow> bool" where
  "submits_identity_fields payload c =
     (case c of
        Databases_createDocument db coll docId p \<Rightarrow>
          list_all (\<lambda>k. k \<in> fst ` set payload \<longrightarrow> k \<in> fst ` set p)
            [''name'', ''email'', ''createdBy'']
      | _ \<Rightarrow> False)"

subsection \<open>Listing\<close>



text \<open>
  The scopes of the specification: the records of an owner, whatever their visibility,
  and the records flagged public, whoever owns them.
\<close>

definition owned_by :: "string \<Rightarrow> document \<Rightarrow> bool" where
  "owned_by u d = (attr d ''userId'' = JStr u)"

definition flagged_public :: "document \<Rightarrow> bool" where
  "flagged_public d = (attr d ''isPublic'' = JBool True)"


section \<open>Example backends\<close>

text \<open>
  Concrete backends, environments and documents at which the theorems below are
  instantiated. The error message is the one the backend sends for an attribute that
  its collection does not have.
\<close>

definition unknown_attribute_error :: "string \<Rightarrow> js_error" where
  "unknown_attribute_error a =
     \<lparr>err_message = ''Invalid document structure: Unknown attribute: '' @ [CHR 0x22] @ a
                      @ [CHR 0x22],
      err_code = Some 400, err_response_message = None\<rparr>"

definition stored_document :: "string \<Rightarrow> payload \<Rightarrow> document" where
  "stored_document docId p =
     [(''$id'', JStr docId), (''$createdAt'', JStr ''2024-05-01T10:00:00.000+00:00''),
      (''$updatedAt'', JStr ''2024-05-01T10:00:00.000+00:00'')] @ p"

definition example_account :: account where
  "example_account = \<lparr>acc_id = ''u1'', acc_email = ''ada@example.org'', acc_name = ''Ada''\<rparr>"

definition other_account :: account where
  "other_account = \<lparr>acc_id = ''u2'', acc_email = ''grace@example.org'', acc_name = ''Grace''\<rparr>"

definition example_env :: env where
  "example_env =
     \<lparr>REACT_APP_APPWRITE_PROJECT_ID = Some ''portfolio'',
      REACT_APP_APPWRITE_DATABASE_ID = Some ''main'',
      REACT_APP_APPWRITE_COLLECTION_USERS = Some ''users'',
      REACT_APP_APPWRITE_COLLECTION_PROJECTS = Some ''projects'',
      REACT_APP_APPWRITE_BUCKET_MEDIA = Some ''media''\<rparr>"

text \<open>
  A backend whose users collection lacks the attributes \<open>missing\<close>: a write that carries
  one of them fails naming the first, any other write succeeds.
\<close>

definition write_reply :: "string list \<Rightarrow> string \<Rightarrow> payload \<Rightarrow> js_error + document" where
  "write_reply missing docId p =
     (case filter (\<lambda>k. k \<in> set missing) (map fst p) of
        [] \<Rightarrow> Inr (stored_document docId p)
      | a # _ \<Rightarrow> Inl (unknown_attribute_error a))"

definition backend_lacking :: "string list \<Rightarrow> backend" where
  "backend_lacking missing =
     \<lparr>reply_account = (\<lambda>tr c. Inr example_account),
      reply_void = (\<lambda>tr c. None),
      reply_document = (\<lambda>tr c.
        case c of
          Databases_createDocument db coll docId p \<Rightarrow> write_reply missing docId p
        | Databases_updateDocument db coll docId p \<Rightarrow> write_reply missing docId p
        | Databases_getDocument db coll docId \<Rightarrow>
            Inr (stored_document docId [(''email'', JStr ''ada@example.org'')])
        | _ \<Rightarrow> Inl (new_Error ''Bad request'')),
      reply_documents = (\<lambda>tr c. Inr [])\<rparr>"

text \<open>A backend that answers every document request by naming an attribute nobody sent.\<close>

definition backend_ghost :: backend where
  "backend_ghost =
     \<lparr>reply_account = (\<lambda>tr c. Inr example_account),
      reply_void = (\<lambda>tr c. None),
      reply_document = (\<lambda>tr c. Inl (unknown_attribute_error ''ghost'')),
      reply_documents = (\<lambda>tr c. Inr [])\<rparr>"

text \<open>A backend that has no document at all.\<close>

definition document_not_found :: js_error where
  "document_not_found =
     \<lparr>err_message = ''Document with the requested ID could not be found.'',
      err_code = Some 404, err_response_message = None\<rparr>"

definition backend_not_found :: backend where
  "backend_not_found =
     \<lparr>reply_account = (\<lambda>tr c. Inr example_account),
      reply_void = (\<lambda>tr c. None),
      reply_document = (\<lambda>tr c. Inl document_not_found),
      reply_documents = (\<lambda>tr c. Inr [])\<rparr>"

text \<open>
  A backend with two accounts: the session is the first account's until a session has
  been created for the second. \<open>deleteReply\<close> is its answer to the request that deletes
  all sessions.
\<close>

definition backend_two_accounts :: "js_error option \<Rightarrow> backend" where
  "backend_two_accounts deleteReply =
     \<lparr>reply_account = (\<lambda>tr c.
        if Account_createEmailPasswordSession ''grace@example.org'' ''pw'' \<in> set tr
        then Inr other_account else Inr example_account),
      reply_void = (\<lambda>tr c. case c of Account_deleteSessions \<Rightarrow> deleteReply | _ \<Rightarrow> None),
      reply_document = (\<lambda>tr c.
        case c of
          Databases_getDocument db coll docId \<Rightarrow>
            Inr (stored_document docId
                  [(''email'', JStr (if docId = ''u2'' then ''grace@example.org''
                                     else ''ada@example.org''))])
        | _ \<Rightarrow> Inl (new_Error ''Bad request'')),
      reply_documents = (\<lambda>tr c. Inr [])\<rparr>"

text \<open>A backend that lists a stored collection, honouring the equality filters.\<close>

definition project_document :: "string \<Rightarrow> string \<Rightarrow> bool \<Rightarrow> int \<Rightarrow> string \<Rightarrow> document" where
  "project_document docId owner public ord created =
     [(''$id'', JStr docId), (''$createdAt'', JStr created), (''$updatedAt'', JStr created),
      (''title'', JStr docId), (''userId'', JStr owner), (''createdBy'', JStr owner),
      (''isPublic'', JBool public), (''order'', JNum ord)]"

definition example_collection :: "document list" where
  "example_collection =
     [project_document ''p1'' ''u1'' True 3 ''2024-05-01T10:00:00.000+00:00'',
      project_document ''p2'' ''u1'' False 1 ''2024-05-02T10:00:00.000+00:00'',
      project_document ''p3'' ''u2'' True 1 ''2024-05-03T10:00:00.000+00:00'',
      project_document ''p4'' ''u2'' False 2 ''2024-05-04T10:00:00.000+00:00'']"

definition backend_listing :: "document list \<Rightarrow> backend" where
  "backend_listing stored =
     \<lparr>reply_account = (\<lambda>tr c. Inr example_account),
      reply_void = (\<lambda>tr c. None),
      reply_document = (\<lambda>tr c. Inl (new_Error ''Bad request'')),
      reply_documents = (\<lambda>tr c.
        case c of
          Databases_listDocuments db coll queries \<Rightarrow>
            Inr (filter (\<lambda>d. list_all (query_matches d) queries) stored)
        | _ \<Rightarrow> Inl (new_Error ''Bad request''))\<rparr>"

text \<open>
  An instance of \<open>getTime\<close> for the examples: the time value of a number of milliseconds
  is that number, and the time value of a UTC timestamp in the backend's format
  \<^verbatim>\<open>YYYY-MM-DDTHH:MM:SS.mmm+00:00\<close> is its count of milliseconds since 1970. The
  examples use no other value.
\<close>

definition digits_value :: "string \<Rightarrow> int" where
  "digits_value s = foldl (\<lambda>n c. 10 * n + (of_char c - 48)) 0 s"

definition days_from_civil :: "int \<Rightarrow> int \<Rightarrow> int \<Rightarrow> int" where
  "days_from_civil y m d =
     (let y' = (if m \<le> 2 then y - 1 else y);
          era = y' div 400;
          yoe = y' - era * 400;
          doy = (153 * (if m > 2 then m - 3 else m + 9) + 2) div 5 + d - 1;
          doe = yoe * 365 + yoe div 4 - yoe div 100 + doy
      in era * 146097 + doe - 719468)"

definition utc_time :: "string \<Rightarrow> int" where
  "utc_time s =
     ((days_from_civil (digits_value (take 4 s)) (digits_value (take 2 (drop 5 s)))
          (digits_value (take 2 (drop 8 s))) * 24
        + digits_value (take 2 (drop 11 s))) * 60
        + digits_value (take 2 (drop 14 s))) * 60000
      + digits_value (take 2 (drop 17 s)) * 1000
      + digits_value (take 3 (drop 20 s))"

definition utc_getTime :: "jsval \<Rightarrow> int" where
  "utc_getTime v = (case v of JNum n \<Rightarrow> n | JStr s \<Rightarrow> utc_time s | _ \<Rightarrow> 0)"


section \<open>Properties of the record mapper\<close>













text \<open>
  Claim C10. In every mapped Project, \<^verbatim>\<open>userId\<close> falls back to the document's
  \<^verbatim>\<open>createdBy\<close> when the document's \<^verbatim>\<open>userId\<close> is absent (or otherwise falsy), and
  \<^verbatim>\<open>createdBy\<close> falls back to the document's \<^verbatim>\<open>userId\<close> likewise, each ending at the
  empty string; so \<^verbatim>\<open>userId\<close> is the empty string exactly when \<^verbatim>\<open>createdBy\<close> is.
\<close>

theorem mapProjectDoc_owner_fallback:
  "(\<not> truthy (attr doc ''userId'') \<longrightarrow>
      p_userId (mapProjectDoc doc) = js_or (attr doc ''createdBy'') (JStr [])) \<and>
   (\<not> truthy (attr doc ''createdBy'') \<longrightarrow>
      p_createdBy (mapProjectDoc doc) = js_or (attr doc ''userId'') (JStr [])) \<and>
   (p_userId (mapProjectDoc doc) = JStr [] \<longleftrightarrow> p_createdBy (mapProjectDoc doc) = JStr [])"
  by (auto simp: mapProjectDoc_def js_or_def)

theorem mapProjectDoc_owner_fallback_witness:
  "p_userId (mapProjectDoc [(''createdBy'', JStr ''u1'')]) = JStr ''u1'' \<and>
   p_createdBy (mapProjectDoc [(''userId'', JStr ''u2'')]) = JStr ''u2'' \<and>
   p_userId (mapProjectDoc [(''title'', JStr ''t'')]) = JStr [] \<and>
   p_createdBy (mapProjectDoc [(''title'', JStr ''t'')]) = JStr []"
  using mapProjectDoc_owner_fallback [of "[(''createdBy'', JStr ''u1'')]"]
    mapProjectDoc_owner_fallback [of "[(''userId'', JStr ''u2'')]"]
    mapProjectDoc_owner_fallback [of "[(''title'', JStr ''t'')]"]
  by (simp add: attr_def js_or_def)


section \<open>Properties of the listing pipeline\<close>

subsection \<open>The comparator\<close>







subsection \<open>The sort\<close>


lemma mset_js_insert: "mset (js_insert cmp x ys) = add_mset x (mset ys)"
  by (induction ys) auto

lemma mset_js_sort: "mset (js_sort cmp xs) = mset xs"
  by (induction xs) (auto simp: js_sort_def mset_js_insert)









lemma validateConfig_portfolio_example: "validateConfig_portfolio example_env = None"
  by (simp add: validateConfig_portfolio_def example_env_def env_missing_def)

lemma example_replies:
  "reply_documents (backend_listing example_collection) tr
     (Databases_listDocuments db coll (project_queries (Some ''u1''))) =
   Inr [project_document ''p1'' ''u1'' True 3 ''2024-05-01T10:00:00.000+00:00'',
        project_document ''p2'' ''u1'' False 1 ''2024-05-02T10:00:00.000+00:00'']"
  "reply_documents (backend_listing example_collection) tr
     (Databases_listDocuments db coll (project_queries None)) =
   Inr [project_document ''p1'' ''u1'' True 3 ''2024-05-01T10:00:00.000+00:00'',
        project_document ''p3'' ''u2'' True 1 ''2024-05-03T10:00:00.000+00:00'']"
  by (simp_all add: backend_listing_def example_collection_def project_queries_def
      project_document_def attr_def)





subsection \<open>The scope of a listing\<close>

text \<open>
  Claim C6. When the configuration is valid and the backend's reply honours the filters
  of the request over its stored collection, a listing for a non-empty owner identifier
  holds exactly the stored records of that owner, whatever their visibility flag, and a
  listing without an owner identifier (none, or the empty string) holds exactly the
  stored records flagged public, whoever owns them.
\<close>

theorem getProjects_scope:
  assumes "validateConfig_portfolio e = None"
    and "reply_documents b (w_trace w)
           (Databases_listDocuments (DATABASE_ID e) (COLLECTION_PROJECTS e)
              (project_queries userId)) = Inr documents"
    and "honours_filters stored (project_queries userId) documents"
  shows "\<exists>projects. fst (getProjects getTime b e userId w) = Inr projects \<and>
     (\<forall>u. userId = Some u \<and> u \<noteq> [] \<longrightarrow>
        mset projects = mset (map mapProjectDoc (filter (owned_by u) stored))) \<and>
     (userId = None \<or> userId = Some [] \<longrightarrow>
        mset projects = mset (map mapProjectDoc (filter flagged_public stored)))"
proof -
  let ?ps = "js_sort (compareProjects getTime) (map mapProjectDoc documents)"
  from assms(1,2) have r: "fst (getProjects getTime b e userId w) = Inr ?ps"
    by (simp add: getProjects_def Let_def)
  have m: "mset ?ps = mset (map mapProjectDoc documents)"
    by (rule mset_js_sort)
  have d: "mset (map mapProjectDoc documents) =
      mset (map mapProjectDoc
        (filter (\<lambda>d. list_all (query_matches d) (project_queries userId)) stored))"
    using assms(3) unfolding honours_filters_def
    by (metis mset_map)
  have o: "\<And>u. userId = Some u \<Longrightarrow> u \<noteq> [] \<Longrightarrow>
      (\<lambda>d. list_all (query_matches d) (project_queries userId)) = owned_by u"
    by (auto simp: project_queries_def owned_by_def fun_eq_iff)
  have p: "userId = None \<or> userId = Some [] \<Longrightarrow>
      (\<lambda>d. list_all (query_matches d) (project_queries userId)) = flagged_public"
    by (auto simp: project_queries_def flagged_public_def fun_eq_iff)
  from r m d o p show ?thesis by auto
qed

lemma example_honours:
  "honours_filters example_collection (project_queries (Some ''u1''))
     [project_document ''p1'' ''u1'' True 3 ''2024-05-01T10:00:00.000+00:00'',
      project_document ''p2'' ''u1'' False 1 ''2024-05-02T10:00:00.000+00:00'']"
  "honours_filters example_collection (project_queries None)
     [project_document ''p1'' ''u1'' True 3 ''2024-05-01T10:00:00.000+00:00'',
      project_document ''p3'' ''u2'' True 1 ''2024-05-03T10:00:00.000+00:00'']"
  by (simp_all add: honours_filters_def example_collection_def project_queries_def
      project_document_def attr_def)

lemma example_scopes:
  "filter (owned_by ''u1'') example_collection =
     [project_document ''p1'' ''u1'' True 3 ''2024-05-01T10:00:00.000+00:00'',
      project_document ''p2'' ''u1'' False 1 ''2024-05-02T10:00:00.000+00:00'']"
  "filter flagged_public example_collection =
     [project_document ''p1'' ''u1'' True 3 ''2024-05-01T10:00:00.000+00:00'',
      project_document ''p3'' ''u2'' True 1 ''2024-05-03T10:00:00.000+00:00'']"
  by (simp_all add: owned_by_def flagged_public_def example_collection_def
      project_document_def attr_def)

theorem getProjects_scope_witness:
  "(\<exists>projects.
      fst (getProjects utc_getTime (backend_listing example_collection) example_env
             (Some ''u1'') initial_world) = Inr projects \<and>
      mset projects =
        mset (map mapProjectDoc
          [project_document ''p1'' ''u1'' True 3 ''2024-05-01T10:00:00.000+00:00'',
           project_document ''p2'' ''u1'' False 1 ''2024-05-02T10:00:00.000+00:00''])) \<and>
   (\<exists>projects.
      fst (getProjects utc_getTime (backend_listing example_collection) example_env
             None initial_world) = Inr projects \<and>
      mset projects =
        mset (map mapProjectDoc
          [project_document ''p1'' ''u1'' True 3 ''2024-05-01T10:00:00.000+00:00'',
           project_document ''p3'' ''u2'' True 1 ''2024-05-03T10:00:00.000+00:00'']))"
proof
  from getProjects_scope [where getTime = utc_getTime and w = initial_world,
      OF validateConfig_portfolio_example example_replies(1) example_honours(1)]
  obtain projects where
    r: "fst (getProjects utc_getTime (backend_listing example_collection) example_env
             (Some ''u1'') initial_world) = Inr projects"
    and m: "\<forall>u. Some ''u1'' = Some u \<and> u \<noteq> [] \<longrightarrow>
        mset projects = mset (map mapProjectDoc (filter (owned_by u) example_collection))"
    by (elim exE conjE) (rule that; assumption)
  from m have "mset projects =
      mset (map mapProjectDoc (filter (owned_by ''u1'') example_collection))"
    by simp
  then have "mset projects =
        mset (map mapProjectDoc
          [project_document ''p1'' ''u1'' True 3 ''2024-05-01T10:00:00.000+00:00'',
           project_document ''p2'' ''u1'' False 1 ''2024-05-02T10:00:00.000+00:00''])"
    by (simp only: example_scopes)
  with r show "\<exists>projects.
      fst (getProjects utc_getTime (backend_listing example_collection) example_env
             (Some ''u1'') initial_world) = Inr projects \<and>
      mset projects =
        mset (map mapProjectDoc
          [project_document ''p1'' ''u1'' True 3 ''2024-05-01T10:00:00.000+00:00'',
           project_document ''p2'' ''u1'' False 1 ''2024-05-02T10:00:00.000+00:00''])"
    by (intro exI conjI)
  from getProjects_scope [where getTime = utc_getTime and w = initial_world,
      OF validateConfig_portfolio_example example_replies(2) example_honours(2)]
  obtain projects where
    r: "fst (getProjects utc_getTime (backend_listing example_collection) example_env
             None initial_world) = Inr projects"
    and m: "(None :: string option) = None \<or> (None :: string option) = Some [] \<longrightarrow>
        mset projects = mset (map mapProjectDoc (filter flagged_public example_collection))"
    by (elim exE conjE) (rule that; assumption)
  from m have "mset projects =
      mset (map mapProjectDoc (filter flagged_public example_collection))"
    by simp
  then have "mset projects =
        mset (map mapProjectDoc
          [project_document ''p1'' ''u1'' True 3 ''2024-05-01T10:00:00.000+00:00'',
           project_document ''p3'' ''u2'' True 1 ''2024-05-03T10:00:00.000+00:00''])"
    by (simp only: example_scopes)
  with r show "\<exists>projects.
      fst (getProjects utc_getTime (backend_listing example_collection) example_env
             None initial_world) = Inr projects \<and>
      mset projects =
        mset (map mapProjectDoc
          [project_document ''p1'' ''u1'' True 3 ''2024-05-01T10:00:00.000+00:00'',
           project_document ''p3'' ''u2'' True 1 ''2024-05-03T10:00:00.000+00:00''])"
    by (intro exI conjI)
qed


section \<open>Properties of the schema-drift-tolerant writer\<close>

subsection \<open>Basic facts\<close>

lemma w_trace_logged [simp]: "w_trace (logged c w) = w_trace w @ [c]"
  by (simp add: logged_def)

lemma w_trace_forget_field [simp]: "w_trace (forget_field a w) = w_trace w"
  by (simp add: forget_field_def)

lemma fields_logged [simp]: "USER_UPDATE_FIELDS (logged c w) = USER_UPDATE_FIELDS w"
  by (simp add: logged_def)

lemma fields_forget_field:
  "set (USER_UPDATE_FIELDS (forget_field a w)) = set (USER_UPDATE_FIELDS w) - {a}"
  by (auto simp: forget_field_def isUserUpdatableField_def)

lemma length_delete_key: "a \<in> fst ` set p \<Longrightarrow> length (delete_key a p) < length p"
  unfolding delete_key_def
  by (auto intro: length_filter_less)

lemma delete_key_absent: "a \<notin> fst ` set (delete_key a p)"
  by (auto simp: delete_key_def)

lemma delete_key_other: "k \<noteq> a \<Longrightarrow> k \<in> fst ` set p \<Longrightarrow> k \<in> fst ` set (delete_key a p)"
  by (force simp: delete_key_def)

lemma new_calls_append: "w_trace w' = w_trace w @ cs \<Longrightarrow> new_calls w w' = cs"
  by (simp add: new_calls_def)

lemma drift_honest_create:
  "drift_honest b \<Longrightarrow> reply_document b tr (Databases_createDocument db coll docId p) = Inl error
     \<Longrightarrow> extractUnknownAttribute error = Some a \<Longrightarrow> a \<in> fst ` set p"
proof -
  assume h: "drift_honest b"
    and r: "reply_document b tr (Databases_createDocument db coll docId p) = Inl error"
    and x: "extractUnknownAttribute error = Some a"
  from h r x have "names_submitted_field (Databases_createDocument db coll docId p) a"
    unfolding drift_honest_def by blast
  then show ?thesis by (simp add: names_submitted_field_def)
qed

lemma drift_honest_update:
  "drift_honest b \<Longrightarrow> reply_document b tr (Databases_updateDocument db coll docId p) = Inl error
     \<Longrightarrow> extractUnknownAttribute error = Some a \<Longrightarrow> a \<in> fst ` set p"
proof -
  assume h: "drift_honest b"
    and r: "reply_document b tr (Databases_updateDocument db coll docId p) = Inl error"
    and x: "extractUnknownAttribute error = Some a"
  from h r x have "names_submitted_field (Databases_updateDocument db coll docId p) a"
    unfolding drift_honest_def by blast
  then show ?thesis by (simp add: names_submitted_field_def)
qed

text \<open>One round of each loop, when the backend names an unknown attribute.\<close>

lemma createUserDocument_retry:
  assumes "reply_document b (w_trace w)
             (Databases_createDocument (DATABASE_ID e) (COLLECTION_USERS e) userId payload) = Inl error"
    and "extractUnknownAttribute error = Some a"
    and "a \<notin> set [''name'', ''email'', ''createdBy'']"
    and "delete_key a payload \<noteq> []"
  shows "createUserDocument (Suc fuel) b e userId payload w =
           createUserDocument fuel b e userId (delete_key a payload)
             (forget_field a (logged
                (Databases_createDocument (DATABASE_ID e) (COLLECTION_USERS e) userId payload) w))"
  using assms by (simp add: Let_def)

lemma updateProfile_loop_retry:
  assumes "remaining \<noteq> []"
    and "reply_document b (w_trace w)
           (Databases_updateDocument (DATABASE_ID e) (COLLECTION_USERS e) accountId remaining)
         = Inl error"
    and "extractUnknownAttribute error = Some a"
  shows "updateProfile_loop (Suc fuel) b e accountId remaining w =
           updateProfile_loop fuel b e accountId (delete_key a remaining)
             (forget_field a (logged
                (Databases_updateDocument (DATABASE_ID e) (COLLECTION_USERS e) accountId remaining)
                w))"
  using assms by (simp add: Let_def)

lemma updateProfile_loop_empty:
  "updateProfile_loop (Suc fuel) b e accountId [] w =
     Some (case reply_document b (w_trace w)
                  (Databases_getDocument (DATABASE_ID e) (COLLECTION_USERS e) accountId) of
             Inl error \<Rightarrow> Inl error
           | Inr existingDoc \<Rightarrow> Inr (mapUserDocument existingDoc),
           logged (Databases_getDocument (DATABASE_ID e) (COLLECTION_USERS e) accountId) w)"
  by (simp add: Let_def split: sum.splits)

subsection \<open>Termination within the field count\<close>

lemma createUserDocument_terminates:
  "drift_honest b \<Longrightarrow> length payload < fuel \<Longrightarrow>
   \<exists>r w'. createUserDocument fuel b e userId payload w = Some (r, w') \<and>
          length (w_trace w') \<le> length (w_trace w) + Suc (length payload)"
proof (induction fuel arbitrary: payload w)
  case 0
  then show ?case by simp
next
  case (Suc fuel)
  let ?c = "Databases_createDocument (DATABASE_ID e) (COLLECTION_USERS e) userId payload"
  show ?case
  proof (cases "reply_document b (w_trace w) ?c")
    case (Inr doc)
    then show ?thesis by (simp add: Let_def)
  next
    case (Inl error)
    show ?thesis
    proof (cases "extractUnknownAttribute error")
      case None
      with Inl show ?thesis by (simp add: Let_def)
    next
      case (Some a)
      show ?thesis
      proof (cases "a \<in> set [''name'', ''email'', ''createdBy''] \<or> delete_key a payload = []")
        case True
        with Inl Some show ?thesis by (auto simp: Let_def)
      next
        case False
        from Suc.prems(1) Inl Some have "a \<in> fst ` set payload"
          by (rule drift_honest_create)
        then have shorter: "length (delete_key a payload) < length payload"
          by (rule length_delete_key)
        with Suc.prems(2) have "length (delete_key a payload) < fuel" by simp
        from Suc.IH [OF Suc.prems(1) this, of "forget_field a (logged ?c w)"]
        obtain r w' where
          "createUserDocument fuel b e userId (delete_key a payload) (forget_field a (logged ?c w))
             = Some (r, w')"
          "length (w_trace w') \<le> length (w_trace (forget_field a (logged ?c w)))
             + Suc (length (delete_key a payload))"
          by blast
        with False Inl Some shorter show ?thesis by (auto simp: Let_def)
      qed
    qed
  qed
qed

lemma updateProfile_loop_terminates:
  "drift_honest b \<Longrightarrow> length payload < fuel \<Longrightarrow>
   \<exists>r w'. updateProfile_loop fuel b e accountId payload w = Some (r, w') \<and>
          length (w_trace w') \<le> length (w_trace w) + Suc (length payload)"
proof (induction fuel arbitrary: payload w)
  case 0
  then show ?case by simp
next
  case (Suc fuel)
  let ?c = "Databases_updateDocument (DATABASE_ID e) (COLLECTION_USERS e) accountId payload"
  show ?case
  proof (cases "payload = []")
    case True
    then show ?thesis by (auto simp: Let_def split: sum.splits)
  next
    case nonempty: False
    show ?thesis
    proof (cases "reply_document b (w_trace w) ?c")
      case (Inr doc)
      with nonempty show ?thesis by (simp add: Let_def)
    next
      case (Inl error)
      show ?thesis
      proof (cases "extractUnknownAttribute error")
        case None
        with Inl nonempty show ?thesis by (simp add: Let_def)
      next
        case (Some a)
        from Suc.prems(1) Inl Some have "a \<in> fst ` set payload"
          by (rule drift_honest_update)
        then have shorter: "length (delete_key a payload) < length payload"
          by (rule length_delete_key)
        with Suc.prems(2) have "length (delete_key a payload) < fuel" by simp
        from Suc.IH [OF Suc.prems(1) this, of "forget_field a (logged ?c w)"]
        obtain r w' where
          "updateProfile_loop fuel b e accountId (delete_key a payload)
             (forget_field a (logged ?c w)) = Some (r, w')"
          "length (w_trace w') \<le> length (w_trace (forget_field a (logged ?c w)))
             + Suc (length (delete_key a payload))"
          by blast
        with nonempty Inl Some shorter show ?thesis by (auto simp: Let_def)
      qed
    qed
  qed
qed

lemma length_sanitizeUserUpdateData: "length (sanitizeUserUpdateData w data) \<le> length data"
  by (simp add: sanitizeUserUpdateData_def)

lemma updateProfile_terminates:
  assumes "drift_honest b"
  shows "\<exists>r w'. updateProfile (Suc (length data)) b e data w = Some (r, w')"
proof (cases "validateConfig e")
  case (Some error)
  then show ?thesis by (simp add: updateProfile_def)
next
  case None
  show ?thesis
  proof (cases "reply_account b (w_trace w) Account_get")
    case (Inl error)
    with None show ?thesis by (simp add: updateProfile_def)
  next
    case (Inr accountData)
    let ?w2 = "if truthy (attr data ''name'')
               then logged (Account_updateName (attr data ''name'')) (logged Account_get w)
               else logged Account_get w"
    have "length (sanitizeUserUpdateData ?w2 data) < Suc (length data)"
      using length_sanitizeUserUpdateData [of ?w2 data] by simp
    from updateProfile_loop_terminates [OF assms this, of e "acc_id accountData" ?w2]
    obtain r w' where
      "updateProfile_loop (Suc (length data)) b e (acc_id accountData)
         (sanitizeUserUpdateData ?w2 data) ?w2 = Some (r, w')"
      by blast
    with None Inr show ?thesis
      by (cases r) (simp_all add: updateProfile_def Let_def)
  qed
qed

subsection \<open>Examples\<close>

lemmas example_defs =
  validateConfig_def env_missing_def env_or_def DATABASE_ID_def COLLECTION_USERS_def
  example_env_def initial_world_def initial_USER_UPDATE_FIELDS_def
  logged_def forget_field_def isUserUpdatableField_def delete_key_def
  sanitizeUserUpdateData_def sanitize_value_def trim_def is_js_space_def attr_def
  example_account_def write_reply_def Let_def

lemma extract_bio: "extractUnknownAttribute (unknown_attribute_error ''bio'') = Some ''bio''"
  by (simp add: extractUnknownAttribute_def unknown_attribute_error_def error_text_def
      unknown_attribute_prefix_def match_group_def is_line_terminator_def)

lemma extract_ghost: "extractUnknownAttribute (unknown_attribute_error ''ghost'') = Some ''ghost''"
  by (simp add: extractUnknownAttribute_def unknown_attribute_error_def error_text_def
      unknown_attribute_prefix_def match_group_def is_line_terminator_def)

lemma extract_name: "extractUnknownAttribute (unknown_attribute_error ''name'') = Some ''name''"
  by (simp add: extractUnknownAttribute_def unknown_attribute_error_def error_text_def
      unknown_attribute_prefix_def match_group_def is_line_terminator_def)

lemma write_reply_honest:
  "write_reply [''bio''] docId p = Inl error \<Longrightarrow> extractUnknownAttribute error = Some a
     \<Longrightarrow> a \<in> fst ` set p"
proof -
  assume r: "write_reply [''bio''] docId p = Inl error"
    and x: "extractUnknownAttribute error = Some a"
  from r obtain k ks where f: "filter (\<lambda>k. k \<in> set [''bio'']) (map fst p) = k # ks"
    and e: "error = unknown_attribute_error k"
    by (auto simp: write_reply_def split: list.splits)
  from f have "k \<in> set (filter (\<lambda>k. k \<in> set [''bio'']) (map fst p))" by simp
  then have k: "k = ''bio''" and kp: "k \<in> fst ` set p" by auto
  from x e k have "a = ''bio''" by (simp add: extract_bio)
  with k kp show ?thesis by simp
qed

lemma drift_honest_lacking_bio: "drift_honest (backend_lacking [''bio''])"
  unfolding drift_honest_def names_submitted_field_def
  by (auto simp: backend_lacking_def new_Error_def extractUnknownAttribute_def error_text_def
      split: call.splits dest: write_reply_honest)

lemma validateConfig_example: "validateConfig example_env = None"
  by (simp add: example_defs)

subsection \<open>What the creation loop submits and returns\<close>

lemma createUserDocument_identity:
  "createUserDocument fuel b e userId payload w = Some (r, w') \<Longrightarrow>
   \<forall>k\<in>set [''name'', ''email'', ''createdBy''].
      k \<in> fst ` set payload0 \<longrightarrow> k \<in> fst ` set payload \<Longrightarrow>
   \<exists>cs. w_trace w' = w_trace w @ cs \<and> list_all (submits_identity_fields payload0) cs"
proof (induction fuel arbitrary: payload w)
  case 0
  then show ?case by simp
next
  case (Suc fuel)
  let ?c = "Databases_createDocument (DATABASE_ID e) (COLLECTION_USERS e) userId payload"
  from Suc.prems(2) have c: "submits_identity_fields payload0 ?c"
    by (simp add: submits_identity_fields_def)
  show ?case
  proof (cases "reply_document b (w_trace w) ?c")
    case (Inr doc)
    with Suc.prems(1) c show ?thesis by (auto simp: Let_def)
  next
    case (Inl error)
    show ?thesis
    proof (cases "extractUnknownAttribute error")
      case None
      with Inl Suc.prems(1) c show ?thesis by (auto simp: Let_def)
    next
      case (Some a)
      show ?thesis
      proof (cases "a \<in> set [''name'', ''email'', ''createdBy'']")
        case True
        with Inl Some Suc.prems(1) c show ?thesis by (auto simp: Let_def)
      next
        case False
        show ?thesis
        proof (cases "delete_key a payload = []")
          case True
          with False Inl Some Suc.prems(1) c show ?thesis by (auto simp: Let_def)
        next
          case nonempty: False
          with False Inl Some Suc.prems(1)
          have run: "createUserDocument fuel b e userId (delete_key a payload)
                  (forget_field a (logged ?c w)) = Some (r, w')"
            by (simp add: Let_def)
          have kept: "\<forall>k\<in>set [''name'', ''email'', ''createdBy''].
              k \<in> fst ` set payload0 \<longrightarrow> k \<in> fst ` set (delete_key a payload)"
          proof (intro ballI impI)
            fix k
            assume k: "k \<in> set [''name'', ''email'', ''createdBy'']"
              and "k \<in> fst ` set payload0"
            with Suc.prems(2) have "k \<in> fst ` set payload" by blast
            moreover from k False have "k \<noteq> a" by auto
            ultimately show "k \<in> fst ` set (delete_key a payload)"
              by (rule delete_key_other [rotated])
          qed
          from Suc.IH [OF run kept] obtain cs where
            "w_trace w' = w_trace (forget_field a (logged ?c w)) @ cs"
            "list_all (submits_identity_fields payload0) cs"
            by blast
          with c show ?thesis by simp
        qed
      qed
    qed
  qed
qed

lemma createUserDocument_keeps_identity:
  "createUserDocument fuel b e userId payload w = Some (r, w') \<Longrightarrow>
   k \<in> set [''name'', ''email'', ''createdBy''] \<Longrightarrow>
   isUserUpdatableField w k \<Longrightarrow> isUserUpdatableField w' k"
proof (induction fuel arbitrary: payload w)
  case 0
  then show ?case by simp
next
  case (Suc fuel)
  let ?c = "Databases_createDocument (DATABASE_ID e) (COLLECTION_USERS e) userId payload"
  show ?case
  proof (cases "reply_document b (w_trace w) ?c")
    case (Inr doc)
    with Suc.prems show ?thesis by (auto simp: Let_def isUserUpdatableField_def)
  next
    case (Inl error)
    show ?thesis
    proof (cases "extractUnknownAttribute error")
      case None
      with Inl Suc.prems show ?thesis by (auto simp: Let_def isUserUpdatableField_def)
    next
      case (Some a)
      show ?thesis
      proof (cases "a \<in> set [''name'', ''email'', ''createdBy'']")
        case True
        with Inl Some Suc.prems show ?thesis by (auto simp: Let_def isUserUpdatableField_def)
      next
        case False
        with Suc.prems(2) have "k \<noteq> a" by auto
        with Suc.prems(3) have still: "isUserUpdatableField (forget_field a (logged ?c w)) k"
          by (simp add: isUserUpdatableField_def fields_forget_field)
        show ?thesis
        proof (cases "delete_key a payload = []")
          case True
          with False Inl Some Suc.prems(1) still show ?thesis by (auto simp: Let_def)
        next
          case nonempty: False
          with False Inl Some Suc.prems(1)
          have "createUserDocument fuel b e userId (delete_key a payload)
                  (forget_field a (logged ?c w)) = Some (r, w')"
            by (simp add: Let_def)
          from Suc.IH [OF this Suc.prems(2) still] show ?thesis .
        qed
      qed
    qed
  qed
qed

lemma createUserDocument_success:
  "createUserDocument fuel b e userId payload w = Some (Inr doc, w') \<Longrightarrow> payload \<noteq> [] \<Longrightarrow>
   \<exists>pre p. p \<noteq> [] \<and>
      w_trace w' = pre @ [Databases_createDocument (DATABASE_ID e) (COLLECTION_USERS e) userId p] \<and>
      reply_document b pre
        (Databases_createDocument (DATABASE_ID e) (COLLECTION_USERS e) userId p) = Inr doc"
proof (induction fuel arbitrary: payload w)
  case 0
  then show ?case by simp
next
  case (Suc fuel)
  let ?c = "Databases_createDocument (DATABASE_ID e) (COLLECTION_USERS e) userId payload"
  show ?case
  proof (cases "reply_document b (w_trace w) ?c")
    case (Inr doc')
    with Suc.prems have "doc' = doc" "w_trace w' = w_trace w @ [?c]"
      by (auto simp: Let_def)
    with Inr Suc.prems(2) show ?thesis by blast
  next
    case (Inl error)
    show ?thesis
    proof (cases "extractUnknownAttribute error")
      case None
      with Inl Suc.prems show ?thesis by (auto simp: Let_def)
    next
      case (Some a)
      show ?thesis
      proof (cases "a \<in> set [''name'', ''email'', ''createdBy''] \<or> delete_key a payload = []")
        case True
        with Inl Some Suc.prems show ?thesis by (auto simp: Let_def split: if_splits)
      next
        case False
        with Inl Some Suc.prems(1)
        have "createUserDocument fuel b e userId (delete_key a payload)
                (forget_field a (logged ?c w)) = Some (Inr doc, w')"
          by (simp add: Let_def)
        from Suc.IH [OF this] False show ?thesis by simp
      qed
    qed
  qed
qed

subsection \<open>The set of updatable fields only shrinks\<close>

lemma createUserDocument_fields:
  "createUserDocument fuel b e userId payload w = Some (r, w') \<Longrightarrow>
   set (USER_UPDATE_FIELDS w') \<subseteq> set (USER_UPDATE_FIELDS w)"
proof (induction fuel arbitrary: payload w)
  case 0
  then show ?case by simp
next
  case (Suc fuel)
  let ?c = "Databases_createDocument (DATABASE_ID e) (COLLECTION_USERS e) userId payload"
  show ?case
  proof (cases "reply_document b (w_trace w) ?c")
    case (Inr doc)
    with Suc.prems show ?thesis by (auto simp: Let_def)
  next
    case (Inl error)
    show ?thesis
    proof (cases "extractUnknownAttribute error")
      case None
      with Inl Suc.prems show ?thesis by (auto simp: Let_def)
    next
      case (Some a)
      show ?thesis
      proof (cases "a \<in> set [''name'', ''email'', ''createdBy'']")
        case True
        with Inl Some Suc.prems show ?thesis by (auto simp: Let_def)
      next
        case False
        show ?thesis
        proof (cases "delete_key a payload = []")
          case True
          with False Inl Some Suc.prems show ?thesis
            by (auto simp: Let_def fields_forget_field)
        next
          case nonempty: False
          with False Inl Some Suc.prems
          have "createUserDocument fuel b e userId (delete_key a payload)
                  (forget_field a (logged ?c w)) = Some (r, w')"
            by (simp add: Let_def)
          from Suc.IH [OF this] show ?thesis
            by (auto simp: fields_forget_field)
        qed
      qed
    qed
  qed
qed

lemma createUserDocument_forgets:
  assumes "reply_document b (w_trace w)
             (Databases_createDocument (DATABASE_ID e) (COLLECTION_USERS e) userId payload) = Inl error"
    and "extractUnknownAttribute error = Some a"
    and "a \<notin> set [''name'', ''email'', ''createdBy'']"
    and "createUserDocument fuel b e userId payload w = Some (r, w')"
  shows "a \<notin> set (USER_UPDATE_FIELDS w')"
proof (cases fuel)
  case 0
  with assms show ?thesis by simp
next
  case (Suc n)
  let ?w2 = "forget_field a (logged
     (Databases_createDocument (DATABASE_ID e) (COLLECTION_USERS e) userId payload) w)"
  have gone: "a \<notin> set (USER_UPDATE_FIELDS ?w2)"
    by (simp add: fields_forget_field)
  show ?thesis
  proof (cases "delete_key a payload = []")
    case True
    with assms Suc have "w' = ?w2" by (simp add: Let_def)
    with gone show ?thesis by simp
  next
    case False
    with assms Suc have "createUserDocument n b e userId (delete_key a payload) ?w2 = Some (r, w')"
      by (simp add: Let_def)
    from createUserDocument_fields [OF this] gone show ?thesis by auto
  qed
qed

lemma updateProfile_loop_fields:
  "updateProfile_loop fuel b e accountId payload w = Some (r, w') \<Longrightarrow>
   set (USER_UPDATE_FIELDS w') \<subseteq> set (USER_UPDATE_FIELDS w)"
proof (induction fuel arbitrary: payload w)
  case 0
  then show ?case by simp
next
  case (Suc fuel)
  let ?c = "Databases_updateDocument (DATABASE_ID e) (COLLECTION_USERS e) accountId payload"
  show ?case
  proof (cases "payload = []")
    case True
    with Suc.prems show ?thesis by (auto simp: Let_def split: sum.splits)
  next
    case nonempty: False
    show ?thesis
    proof (cases "reply_document b (w_trace w) ?c")
      case (Inr doc)
      with nonempty Suc.prems show ?thesis by (auto simp: Let_def)
    next
      case (Inl error)
      show ?thesis
      proof (cases "extractUnknownAttribute error")
        case None
        with Inl nonempty Suc.prems show ?thesis by (auto simp: Let_def)
      next
        case (Some a)
        with Inl nonempty Suc.prems
        have "updateProfile_loop fuel b e accountId (delete_key a payload)
                (forget_field a (logged ?c w)) = Some (r, w')"
          by (simp add: Let_def)
        from Suc.IH [OF this] show ?thesis
          by (auto simp: fields_forget_field)
      qed
    qed
  qed
qed

lemma updateProfile_loop_forgets:
  assumes "payload \<noteq> []"
    and "reply_document b (w_trace w)
             (Databases_updateDocument (DATABASE_ID e) (COLLECTION_USERS e) accountId payload) = Inl error"
    and "extractUnknownAttribute error = Some a"
    and "updateProfile_loop fuel b e accountId payload w = Some (r, w')"
  shows "a \<notin> set (USER_UPDATE_FIELDS w')"
proof (cases fuel)
  case 0
  with assms show ?thesis by simp
next
  case (Suc n)
  let ?w2 = "forget_field a (logged
     (Databases_updateDocument (DATABASE_ID e) (COLLECTION_USERS e) accountId payload) w)"
  have gone: "a \<notin> set (USER_UPDATE_FIELDS ?w2)"
    by (simp add: fields_forget_field)
  from assms Suc have "updateProfile_loop n b e accountId (delete_key a payload) ?w2 = Some (r, w')"
    by (simp add: Let_def)
  from updateProfile_loop_fields [OF this] gone show ?thesis by auto
qed

lemma getCurrentUser_fields [simp]:
  "USER_UPDATE_FIELDS (snd (getCurrentUser b e w)) = USER_UPDATE_FIELDS w"
  by (simp add: getCurrentUser_def Let_def split: option.splits sum.splits)

lemma isLoggedIn_fields [simp]:
  "USER_UPDATE_FIELDS (snd (isLoggedIn b w)) = USER_UPDATE_FIELDS w"
  by (simp add: isLoggedIn_def split: sum.splits)

lemma logoutAllSessions_fields [simp]:
  "USER_UPDATE_FIELDS (snd (logoutAllSessions b w)) = USER_UPDATE_FIELDS w"
  by (simp add: logoutAllSessions_def split: option.splits)

lemma updateProfile_fields:
  "updateProfile fuel b e data w = Some (r, w') \<Longrightarrow>
   set (USER_UPDATE_FIELDS w') \<subseteq> set (USER_UPDATE_FIELDS w)"
  unfolding updateProfile_def Let_def
  by (auto split: option.splits sum.splits if_splits prod.splits
      dest!: updateProfile_loop_fields)

lemma register_fields:
  "register fuel b e newId email password name w = Some (r, w') \<Longrightarrow>
   set (USER_UPDATE_FIELDS w') \<subseteq> set (USER_UPDATE_FIELDS w)"
  unfolding register_def Let_def
  by (auto split: option.splits sum.splits prod.splits dest!: createUserDocument_fields)

lemma login_create_document_fields:
  "login_create_document fuel b e w = Some (r, w') \<Longrightarrow>
   set (USER_UPDATE_FIELDS w') \<subseteq> set (USER_UPDATE_FIELDS w)"
proof -
  assume a: "login_create_document fuel b e w = Some (r, w')"
  show ?thesis
  proof (cases "reply_account b (w_trace w) Account_get")
    case (Inl error)
    with a show ?thesis by (auto simp: login_create_document_def)
  next
    case (Inr accountData)
    let ?p = "[(''email'', JStr (acc_email accountData)), (''name'', JStr (acc_name accountData)),
               (''createdBy'', JStr (acc_id accountData))]"
    show ?thesis
    proof (cases "createUserDocument fuel b e (acc_id accountData) ?p (logged Account_get w)")
      case None
      with a Inr show ?thesis by (simp add: login_create_document_def)
    next
      case (Some res)
      obtain r1 w1 where res: "res = (r1, w1)" by (cases res)
      from createUserDocument_fields [OF Some [unfolded res]]
      have sub: "set (USER_UPDATE_FIELDS w1) \<subseteq> set (USER_UPDATE_FIELDS w)" by simp
      show ?thesis
      proof (cases r1)
        case (Inl err)
        with a Inr Some res sub show ?thesis by (auto simp: login_create_document_def)
      next
        case r1: (Inr userDoc)
        obtain r2 w2 where g: "getCurrentUser b e w1 = (r2, w2)" by (cases "getCurrentUser b e w1")
        then have "USER_UPDATE_FIELDS w2 = USER_UPDATE_FIELDS w1"
          using getCurrentUser_fields [of b e w1] by simp
        with a Inr Some res r1 g sub show ?thesis
          by (auto simp: login_create_document_def split: sum.splits option.splits)
      qed
    qed
  qed
qed

lemma login_after_session_fields:
  "login_after_session fuel b e w = Some (r, w') \<Longrightarrow>
   set (USER_UPDATE_FIELDS w') \<subseteq> set (USER_UPDATE_FIELDS w)"
proof -
  assume a: "login_after_session fuel b e w = Some (r, w')"
  obtain r1 w1 where g: "getCurrentUser b e w = (r1, w1)" by (cases "getCurrentUser b e w")
  then have f: "USER_UPDATE_FIELDS w1 = USER_UPDATE_FIELDS w"
    using getCurrentUser_fields [of b e w] by simp
  from a g f show ?thesis
    by (auto simp: login_after_session_def split: sum.splits option.splits
        dest!: login_create_document_fields)
qed

lemma login_new_session_fields:
  "login_new_session fuel b e email password w = Some (r, w') \<Longrightarrow>
   set (USER_UPDATE_FIELDS w') \<subseteq> set (USER_UPDATE_FIELDS w)"
  unfolding login_new_session_def Let_def
  by (auto split: option.splits dest!: login_after_session_fields)

lemma login_body_fields:
  "login_body fuel b e email password w = Some (r, w') \<Longrightarrow>
   set (USER_UPDATE_FIELDS w') \<subseteq> set (USER_UPDATE_FIELDS w)"
proof -
  assume a: "login_body fuel b e email password w = Some (r, w')"
  obtain l w1 where i: "isLoggedIn b w = (l, w1)" by (cases "isLoggedIn b w")
  then have f1: "USER_UPDATE_FIELDS w1 = USER_UPDATE_FIELDS w"
    using isLoggedIn_fields [of b w] by simp
  obtain r2 w2 where g: "getCurrentUser b e w1 = (r2, w2)" by (cases "getCurrentUser b e w1")
  then have f2: "USER_UPDATE_FIELDS w2 = USER_UPDATE_FIELDS w1"
    using getCurrentUser_fields [of b e w1] by simp
  have f3: "USER_UPDATE_FIELDS (snd (logoutAllSessions b w2)) = USER_UPDATE_FIELDS w2"
    by simp
  from a i g f1 f2 f3 show ?thesis
    by (auto simp: login_body_def split: bool.splits sum.splits option.splits if_splits
        dest!: login_new_session_fields)
qed

lemma login_fields:
  "login fuel b e email password w = Some (r, w') \<Longrightarrow>
   set (USER_UPDATE_FIELDS w') \<subseteq> set (USER_UPDATE_FIELDS w)"
  unfolding login_def
  by (auto split: option.splits sum.splits prod.splits dest!: login_body_fields)

lemma perform_fields:
  "perform fuel b e r w = Some w' \<Longrightarrow> set (USER_UPDATE_FIELDS w') \<subseteq> set (USER_UPDATE_FIELDS w)"
  unfolding perform_def
  by (auto split: request.splits dest!: register_fields login_fields updateProfile_fields)

lemma session_fields:
  "session fuel b e rs w = Some w' \<Longrightarrow> set (USER_UPDATE_FIELDS w') \<subseteq> set (USER_UPDATE_FIELDS w)"
proof (induction rs arbitrary: w)
  case Nil
  then show ?case by simp
next
  case (Cons r rs)
  then obtain w1 where p: "perform fuel b e r w = Some w1" and s: "session fuel b e rs w1 = Some w'"
    by (auto split: option.splits)
  from perform_fields [OF p] Cons.IH [OF s] show ?case by blast
qed

lemma sanitize_keys:
  "k \<in> fst ` set (sanitizeUserUpdateData w data) \<Longrightarrow> k \<in> set (USER_UPDATE_FIELDS w)"
  by (auto simp: sanitizeUserUpdateData_def isUserUpdatableField_def)

subsection \<open>The claims about the writer\<close>

text \<open>
  Claim C1, as amended. Provided every unknown-attribute failure of the backend names a
  field of the payload it was sent, a write of a payload with \<open>n\<close> fields returns
  (with a value or an error) after at most \<open>n + 1\<close> backend requests, in
  \<^verbatim>\<open>createUserDocument\<close> and in the loop of \<^verbatim>\<open>updateProfile\<close> alike, and
  \<^verbatim>\<open>updateProfile\<close> as a whole returns. Each failed attempt whose error names an
  unknown attribute, where the loop goes on, retries with that attribute removed from
  the payload.
\<close>

theorem writer_attempts_bounded:
  assumes "drift_honest b"
  shows
  "(\<exists>r w'. createUserDocument (Suc (length payload)) b e userId payload w = Some (r, w') \<and>
       length (new_calls w w') \<le> Suc (length payload)) \<and>
   (\<exists>r w'. updateProfile_loop (Suc (length payload)) b e userId payload w = Some (r, w') \<and>
       length (new_calls w w') \<le> Suc (length payload)) \<and>
   (\<exists>r w'. updateProfile (Suc (length data)) b e data w = Some (r, w')) \<and>
   (\<forall>error a.
      reply_document b (w_trace w)
        (Databases_createDocument (DATABASE_ID e) (COLLECTION_USERS e) userId payload) = Inl error \<and>
      extractUnknownAttribute error = Some a \<and>
      a \<notin> set [''name'', ''email'', ''createdBy''] \<and> delete_key a payload \<noteq> [] \<longrightarrow>
      a \<in> fst ` set payload \<and> a \<notin> fst ` set (delete_key a payload) \<and>
      createUserDocument (Suc fuel) b e userId payload w =
        createUserDocument fuel b e userId (delete_key a payload)
          (forget_field a (logged
             (Databases_createDocument (DATABASE_ID e) (COLLECTION_USERS e) userId payload) w))) \<and>
   (\<forall>error a.
      payload \<noteq> [] \<and>
      reply_document b (w_trace w)
        (Databases_updateDocument (DATABASE_ID e) (COLLECTION_USERS e) userId payload) = Inl error \<and>
      extractUnknownAttribute error = Some a \<longrightarrow>
      a \<in> fst ` set payload \<and> a \<notin> fst ` set (delete_key a payload) \<and>
      updateProfile_loop (Suc fuel) b e userId payload w =
        updateProfile_loop fuel b e userId (delete_key a payload)
          (forget_field a (logged
             (Databases_updateDocument (DATABASE_ID e) (COLLECTION_USERS e) userId payload) w)))"
proof (intro conjI allI impI)
  from createUserDocument_terminates [OF assms, of payload "Suc (length payload)" e userId w]
  show "\<exists>r w'. createUserDocument (Suc (length payload)) b e userId payload w = Some (r, w') \<and>
       length (new_calls w w') \<le> Suc (length payload)"
    by (auto simp: new_calls_def)
  from updateProfile_loop_terminates [OF assms, of payload "Suc (length payload)" e userId w]
  show "\<exists>r w'. updateProfile_loop (Suc (length payload)) b e userId payload w = Some (r, w') \<and>
       length (new_calls w w') \<le> Suc (length payload)"
    by (auto simp: new_calls_def)
  show "\<exists>r w'. updateProfile (Suc (length data)) b e data w = Some (r, w')"
    using assms by (rule updateProfile_terminates)
next
  fix error a
  assume h: "reply_document b (w_trace w)
        (Databases_createDocument (DATABASE_ID e) (COLLECTION_USERS e) userId payload) = Inl error \<and>
      extractUnknownAttribute error = Some a \<and>
      a \<notin> set [''name'', ''email'', ''createdBy''] \<and> delete_key a payload \<noteq> []"
  from assms h show "a \<in> fst ` set payload"
    by (blast intro: drift_honest_create)
  show "a \<notin> fst ` set (delete_key a payload)"
    by (rule delete_key_absent)
  from h show "createUserDocument (Suc fuel) b e userId payload w =
        createUserDocument fuel b e userId (delete_key a payload)
          (forget_field a (logged
             (Databases_createDocument (DATABASE_ID e) (COLLECTION_USERS e) userId payload) w))"
    by (intro createUserDocument_retry) blast+
next
  fix error a
  assume h: "payload \<noteq> [] \<and>
      reply_document b (w_trace w)
        (Databases_updateDocument (DATABASE_ID e) (COLLECTION_USERS e) userId payload) = Inl error \<and>
      extractUnknownAttribute error = Some a"
  from assms h show "a \<in> fst ` set payload"
    by (blast intro: drift_honest_update)
  show "a \<notin> fst ` set (delete_key a payload)"
    by (rule delete_key_absent)
  from h show "updateProfile_loop (Suc fuel) b e userId payload w =
        updateProfile_loop fuel b e userId (delete_key a payload)
          (forget_field a (logged
             (Databases_updateDocument (DATABASE_ID e) (COLLECTION_USERS e) userId payload) w))"
    by (intro updateProfile_loop_retry) blast+
qed

lemma example_write_replies:
  "reply_document (backend_lacking [''bio'']) tr
     (Databases_createDocument db coll docId [(''name'', JStr ''Ada''), (''bio'', JStr ''Hello'')])
   = Inl (unknown_attribute_error ''bio'')"
  "reply_document (backend_lacking [''bio'']) tr
     (Databases_updateDocument db coll docId [(''name'', JStr ''Ada''), (''bio'', JStr ''Hello'')])
   = Inl (unknown_attribute_error ''bio'')"
  "reply_document (backend_lacking [''bio'']) tr
     (Databases_createDocument db coll docId [(''bio'', JStr ''Hello'')])
   = Inl (unknown_attribute_error ''bio'')"
  "reply_document (backend_lacking [''bio'']) tr
     (Databases_updateDocument db coll docId [(''bio'', JStr ''Hello'')])
   = Inl (unknown_attribute_error ''bio'')"
  "reply_document (backend_lacking [''name'']) tr
     (Databases_createDocument db coll docId
        [(''name'', JStr ''Ada''), (''email'', JStr ''ada@example.org''), (''createdBy'', JStr ''u1'')])
   = Inl (unknown_attribute_error ''name'')"
  "reply_document (backend_lacking [''name'']) tr
     (Databases_updateDocument db coll docId [(''name'', JStr ''Ada L'')])
   = Inl (unknown_attribute_error ''name'')"
  by (simp_all add: backend_lacking_def write_reply_def)

lemma example_deletions:
  "delete_key ''bio'' [(''name'', JStr ''Ada''), (''bio'', JStr ''Hello'')] = [(''name'', JStr ''Ada'')]"
  "delete_key ''bio'' [(''bio'', JStr ''Hello'')] = []"
  "delete_key ''name'' [(''name'', JStr ''Ada L'')] = []"
  by (simp_all add: delete_key_def)

theorem writer_attempts_bounded_witness:
  "drift_honest (backend_lacking [''bio'']) \<and>
   (\<exists>r w'. createUserDocument 3 (backend_lacking [''bio'']) example_env ''u1''
              [(''name'', JStr ''Ada''), (''bio'', JStr ''Hello'')] initial_world = Some (r, w') \<and>
            length (new_calls initial_world w') \<le> 3) \<and>
   (\<exists>r w'. updateProfile_loop 3 (backend_lacking [''bio'']) example_env ''u1''
              [(''name'', JStr ''Ada''), (''bio'', JStr ''Hello'')] initial_world = Some (r, w') \<and>
            length (new_calls initial_world w') \<le> 3) \<and>
   (\<exists>r w'. updateProfile 3 (backend_lacking [''bio'']) example_env
              [(''name'', JStr ''Ada''), (''bio'', JStr ''Hello'')] initial_world = Some (r, w')) \<and>
   ''bio'' \<notin> fst ` set (delete_key ''bio'' [(''name'', JStr ''Ada''), (''bio'', JStr ''Hello'')]) \<and>
   createUserDocument 2 (backend_lacking [''bio'']) example_env ''u1''
       [(''name'', JStr ''Ada''), (''bio'', JStr ''Hello'')] initial_world =
     createUserDocument 1 (backend_lacking [''bio'']) example_env ''u1'' [(''name'', JStr ''Ada'')]
       (forget_field ''bio'' (logged
          (Databases_createDocument (DATABASE_ID example_env) (COLLECTION_USERS example_env) ''u1''
             [(''name'', JStr ''Ada''), (''bio'', JStr ''Hello'')]) initial_world)) \<and>
   updateProfile_loop 2 (backend_lacking [''bio'']) example_env ''u1''
       [(''name'', JStr ''Ada''), (''bio'', JStr ''Hello'')] initial_world =
     updateProfile_loop 1 (backend_lacking [''bio'']) example_env ''u1'' [(''name'', JStr ''Ada'')]
       (forget_field ''bio'' (logged
          (Databases_updateDocument (DATABASE_ID example_env) (COLLECTION_USERS example_env) ''u1''
             [(''name'', JStr ''Ada''), (''bio'', JStr ''Hello'')]) initial_world))"
proof -
  let ?P = "[(''name'', JStr ''Ada''), (''bio'', JStr ''Hello'')]"
  have three: "Suc (length ?P) = 3" by simp
  have two: "Suc 1 = 2" by simp
  have other: "''bio'' \<notin> set [''name'', ''email'', ''createdBy'']" by simp
  have left: "delete_key ''bio'' ?P \<noteq> []" "?P \<noteq> []" by (simp_all add: example_deletions)
  note t = writer_attempts_bounded [OF drift_honest_lacking_bio,
      where payload = ?P and e = example_env and userId = "''u1''" and w = initial_world
        and data = ?P and fuel = 1, unfolded three two]
  from t have c: "\<forall>error a.
      reply_document (backend_lacking [''bio'']) (w_trace initial_world)
        (Databases_createDocument (DATABASE_ID example_env) (COLLECTION_USERS example_env) ''u1'' ?P)
        = Inl error \<and>
      extractUnknownAttribute error = Some a \<and>
      a \<notin> set [''name'', ''email'', ''createdBy''] \<and> delete_key a ?P \<noteq> [] \<longrightarrow>
      a \<in> fst ` set ?P \<and> a \<notin> fst ` set (delete_key a ?P) \<and>
      createUserDocument 2 (backend_lacking [''bio'']) example_env ''u1'' ?P initial_world =
        createUserDocument 1 (backend_lacking [''bio'']) example_env ''u1'' (delete_key a ?P)
          (forget_field a (logged
             (Databases_createDocument (DATABASE_ID example_env) (COLLECTION_USERS example_env)
                ''u1'' ?P) initial_world))"
    by (elim conjE)
  from t have u: "\<forall>error a.
      ?P \<noteq> [] \<and>
      reply_document (backend_lacking [''bio'']) (w_trace initial_world)
        (Databases_updateDocument (DATABASE_ID example_env) (COLLECTION_USERS example_env) ''u1'' ?P)
        = Inl error \<and>
      extractUnknownAttribute error = Some a \<longrightarrow>
      a \<in> fst ` set ?P \<and> a \<notin> fst ` set (delete_key a ?P) \<and>
      updateProfile_loop 2 (backend_lacking [''bio'']) example_env ''u1'' ?P initial_world =
        updateProfile_loop 1 (backend_lacking [''bio'']) example_env ''u1'' (delete_key a ?P)
          (forget_field a (logged
             (Databases_updateDocument (DATABASE_ID example_env) (COLLECTION_USERS example_env)
                ''u1'' ?P) initial_world))"
    by (elim conjE)
  from c [rule_format, of "unknown_attribute_error ''bio''" "''bio''"]
    example_write_replies(1) extract_bio other left
  have c': "''bio'' \<notin> fst ` set (delete_key ''bio'' ?P) \<and>
      createUserDocument 2 (backend_lacking [''bio'']) example_env ''u1'' ?P initial_world =
        createUserDocument 1 (backend_lacking [''bio'']) example_env ''u1'' (delete_key ''bio'' ?P)
          (forget_field ''bio'' (logged
             (Databases_createDocument (DATABASE_ID example_env) (COLLECTION_USERS example_env)
                ''u1'' ?P) initial_world))"
    by blast
  from u [rule_format, of "unknown_attribute_error ''bio''" "''bio''"]
    example_write_replies(2) extract_bio left
  have u': "updateProfile_loop 2 (backend_lacking [''bio'']) example_env ''u1'' ?P initial_world =
        updateProfile_loop 1 (backend_lacking [''bio'']) example_env ''u1'' (delete_key ''bio'' ?P)
          (forget_field ''bio'' (logged
             (Databases_updateDocument (DATABASE_ID example_env) (COLLECTION_USERS example_env)
                ''u1'' ?P) initial_world))"
    by blast
  from t c' u' drift_honest_lacking_bio show ?thesis
    unfolding example_deletions by (intro conjI) (elim conjE, assumption)+
qed

text \<open>
  Claim C1 fails as stated: against a backend that always names an attribute that was
  not sent, a payload with one field is still being retried after two attempts, in
  both writers.
\<close>

theorem writer_unbounded_counterexample:
  "createUserDocument (Suc (length [(''bio'', JStr ''Hello'')])) backend_ghost example_env ''u1''
     [(''bio'', JStr ''Hello'')] initial_world = None \<and>
   updateProfile_loop (Suc (length [(''bio'', JStr ''Hello'')])) backend_ghost example_env ''u1''
     [(''bio'', JStr ''Hello'')] initial_world = None"
  by (simp add: backend_ghost_def extract_ghost delete_key_def Let_def)

text \<open>
  Claim C2, as amended. In \<^verbatim>\<open>createUserDocument\<close>, a failure that names one of the
  identity fields \<^verbatim>\<open>name\<close>, \<^verbatim>\<open>email\<close>, \<^verbatim>\<open>createdBy\<close> is propagated to the caller
  at once, with nothing removed and no retry; every creation request the writer issues
  still carries the identity fields of the payload it was given, and an identity field
  stays in the set of updatable fields. In \<^verbatim>\<open>updateProfile\<close> no field is mandatory:
  a failure that names any field, \<^verbatim>\<open>name\<close> included, removes that field from the
  update and retries.
\<close>

theorem identity_fields_policy:
  "(reply_document b (w_trace w)
       (Databases_createDocument (DATABASE_ID e) (COLLECTION_USERS e) userId payload) = Inl error \<and>
    extractUnknownAttribute error = Some a \<and> a \<in> set [''name'', ''email'', ''createdBy'']
    \<longrightarrow> createUserDocument (Suc fuel) b e userId payload w =
          Some (Inl error,
                logged (Databases_createDocument (DATABASE_ID e) (COLLECTION_USERS e) userId payload)
                  w)) \<and>
   (createUserDocument fuel b e userId payload w = Some (r, w')
    \<longrightarrow> list_all (submits_identity_fields payload) (new_calls w w') \<and>
        (\<forall>k\<in>set [''name'', ''email'', ''createdBy''].
           isUserUpdatableField w k \<longrightarrow> isUserUpdatableField w' k)) \<and>
   (remaining \<noteq> [] \<and>
    reply_document b (w_trace w)
       (Databases_updateDocument (DATABASE_ID e) (COLLECTION_USERS e) accountId remaining)
      = Inl error' \<and>
    extractUnknownAttribute error' = Some a'
    \<longrightarrow> a' \<notin> fst ` set (delete_key a' remaining) \<and>
        updateProfile_loop (Suc fuel) b e accountId remaining w =
          updateProfile_loop fuel b e accountId (delete_key a' remaining)
            (forget_field a' (logged
               (Databases_updateDocument (DATABASE_ID e) (COLLECTION_USERS e) accountId remaining)
               w)))"
proof (intro conjI impI ballI)
  assume "reply_document b (w_trace w)
       (Databases_createDocument (DATABASE_ID e) (COLLECTION_USERS e) userId payload) = Inl error \<and>
    extractUnknownAttribute error = Some a \<and> a \<in> set [''name'', ''email'', ''createdBy'']"
  then show "createUserDocument (Suc fuel) b e userId payload w =
          Some (Inl error,
                logged (Databases_createDocument (DATABASE_ID e) (COLLECTION_USERS e) userId payload)
                  w)"
    by (auto simp: Let_def)
next
  assume run: "createUserDocument fuel b e userId payload w = Some (r, w')"
  from createUserDocument_identity [OF run, of payload]
  obtain cs where "w_trace w' = w_trace w @ cs" "list_all (submits_identity_fields payload) cs"
    by blast
  then show "list_all (submits_identity_fields payload) (new_calls w w')"
    by (simp add: new_calls_append)
  fix k
  assume "k \<in> set [''name'', ''email'', ''createdBy'']" "isUserUpdatableField w k"
  with run show "isUserUpdatableField w' k"
    by (rule createUserDocument_keeps_identity)
next
  assume h: "remaining \<noteq> [] \<and>
    reply_document b (w_trace w)
       (Databases_updateDocument (DATABASE_ID e) (COLLECTION_USERS e) accountId remaining)
      = Inl error' \<and>
    extractUnknownAttribute error' = Some a'"
  show "a' \<notin> fst ` set (delete_key a' remaining)"
    by (rule delete_key_absent)
  from h show "updateProfile_loop (Suc fuel) b e accountId remaining w =
          updateProfile_loop fuel b e accountId (delete_key a' remaining)
            (forget_field a' (logged
               (Databases_updateDocument (DATABASE_ID e) (COLLECTION_USERS e) accountId remaining)
               w))"
    by (intro updateProfile_loop_retry) blast+
qed

theorem identity_fields_policy_witness:
  "createUserDocument 1 (backend_lacking [''name'']) example_env ''u1''
       [(''name'', JStr ''Ada''), (''email'', JStr ''ada@example.org''), (''createdBy'', JStr ''u1'')]
       initial_world =
     Some (Inl (unknown_attribute_error ''name''),
           logged (Databases_createDocument (DATABASE_ID example_env) (COLLECTION_USERS example_env)
             ''u1''
             [(''name'', JStr ''Ada''), (''email'', JStr ''ada@example.org''),
              (''createdBy'', JStr ''u1'')]) initial_world) \<and>
   (\<exists>r w'. createUserDocument 3 (backend_lacking [''bio'']) example_env ''u1''
              [(''name'', JStr ''Ada''), (''bio'', JStr ''Hello'')] initial_world = Some (r, w') \<and>
            list_all (submits_identity_fields [(''name'', JStr ''Ada''), (''bio'', JStr ''Hello'')])
              (new_calls initial_world w') \<and>
            isUserUpdatableField w' ''name'') \<and>
   updateProfile_loop 2 (backend_lacking [''name'']) example_env ''u1'' [(''name'', JStr ''Ada L'')]
       initial_world =
     updateProfile_loop 1 (backend_lacking [''name'']) example_env ''u1'' []
       (forget_field ''name'' (logged
          (Databases_updateDocument (DATABASE_ID example_env) (COLLECTION_USERS example_env) ''u1''
             [(''name'', JStr ''Ada L'')]) initial_world))"
proof (intro conjI)
  let ?I = "[(''name'', JStr ''Ada''), (''email'', JStr ''ada@example.org''),
             (''createdBy'', JStr ''u1'')]"
  let ?P = "[(''name'', JStr ''Ada''), (''bio'', JStr ''Hello'')]"
  have one: "Suc 0 = 1" and two: "Suc 1 = 2" by simp_all
  have mandatory: "''name'' \<in> set [''name'', ''email'', ''createdBy'']" by simp
  note create_case = identity_fields_policy [where b = "backend_lacking [''name'']"
      and w = initial_world and e = example_env and userId = "''u1''" and payload = ?I
      and error = "unknown_attribute_error ''name''" and a = "''name''" and fuel = 0,
      unfolded one, THEN conjunct1, rule_format]
  show "createUserDocument 1 (backend_lacking [''name'']) example_env ''u1'' ?I initial_world =
     Some (Inl (unknown_attribute_error ''name''),
           logged (Databases_createDocument (DATABASE_ID example_env) (COLLECTION_USERS example_env)
             ''u1'' ?I) initial_world)"
    by (rule create_case) (intro conjI example_write_replies(5) extract_name mandatory)
  have "length ?P < 3" by simp
  from createUserDocument_terminates [OF drift_honest_lacking_bio this]
  obtain r w' where run: "createUserDocument 3 (backend_lacking [''bio'']) example_env ''u1'' ?P
      initial_world = Some (r, w')"
    by blast
  have updatable: "isUserUpdatableField initial_world ''name''"
    by (simp add: isUserUpdatableField_def initial_world_def initial_USER_UPDATE_FIELDS_def)
  note kept = identity_fields_policy [where b = "backend_lacking [''bio'']" and w = initial_world
      and e = example_env and userId = "''u1''" and payload = ?P and fuel = 3
      and r = r and w' = w', THEN conjunct2, THEN conjunct1, rule_format, OF run]
  from kept have submitted: "list_all (submits_identity_fields ?P) (new_calls initial_world w')"
    by (rule conjunct1)
  from kept [THEN conjunct2, rule_format, OF mandatory updatable]
  have still: "isUserUpdatableField w' ''name''" .
  from run submitted still
  show "\<exists>r w'. createUserDocument 3 (backend_lacking [''bio'']) example_env ''u1'' ?P
              initial_world = Some (r, w') \<and>
            list_all (submits_identity_fields ?P) (new_calls initial_world w') \<and>
            isUserUpdatableField w' ''name''"
    by (intro exI conjI)
  have nonempty: "[(''name'', JStr ''Ada L'')] \<noteq> []" by simp
  note update_case = identity_fields_policy [where b = "backend_lacking [''name'']"
      and w = initial_world and e = example_env and accountId = "''u1''"
      and remaining = "[(''name'', JStr ''Ada L'')]"
      and error' = "unknown_attribute_error ''name''" and a' = "''name''" and fuel = 1,
      unfolded two example_deletions, THEN conjunct2, THEN conjunct2, rule_format]
  show "updateProfile_loop 2 (backend_lacking [''name'']) example_env ''u1''
       [(''name'', JStr ''Ada L'')] initial_world =
     updateProfile_loop 1 (backend_lacking [''name'']) example_env ''u1'' []
       (forget_field ''name'' (logged
          (Databases_updateDocument (DATABASE_ID example_env) (COLLECTION_USERS example_env) ''u1''
             [(''name'', JStr ''Ada L'')]) initial_world))"
    by (rule update_case [THEN conjunct2])
      (intro conjI nonempty example_write_replies(6) extract_name)
qed

text \<open>
  Claim C2 fails as stated: when the backend reports that \<^verbatim>\<open>name\<close> is unknown,
  \<^verbatim>\<open>updateProfile\<close> removes the field, retries, and returns the existing profile
  instead of propagating the failure.
\<close>

theorem update_strips_name_counterexample:
  "reply_document (backend_lacking [''name''])
      [Account_get, Account_updateName (JStr ''Ada L'')]
      (Databases_updateDocument ''main'' ''users'' ''u1'' [(''name'', JStr ''Ada L'')])
     = Inl (unknown_attribute_error ''name'') \<and>
   map_option fst (updateProfile 2 (backend_lacking [''name'']) example_env
      [(''name'', JStr ''Ada L'')] initial_world)
     = Some (Inr (mapUserDocument (stored_document ''u1'' [(''email'', JStr ''ada@example.org'')])))"
  by (simp add: updateProfile_def numeral_2_eq_2 backend_lacking_def extract_name example_defs)

text \<open>
  Claim C3, as amended. In \<^verbatim>\<open>createUserDocument\<close>, when removing the named attribute
  leaves the payload empty, the operation fails with the error \<^verbatim>\<open>Unable to create user
  profile. No valid fields remain.\<close>, and a document is only ever returned from an
  attempt whose payload was not empty (for a payload that was not empty to begin with).
  In \<^verbatim>\<open>updateProfile\<close>, when removing the named attribute leaves the update empty, the
  operation reads the existing document and returns its mapping, failing only if that
  read fails.
\<close>

theorem emptied_payload_outcome:
  "(reply_document b (w_trace w)
       (Databases_createDocument (DATABASE_ID e) (COLLECTION_USERS e) userId payload) = Inl error \<and>
    extractUnknownAttribute error = Some a \<and> a \<notin> set [''name'', ''email'', ''createdBy''] \<and>
    delete_key a payload = []
    \<longrightarrow> createUserDocument (Suc fuel) b e userId payload w =
          Some (Inl no_valid_fields,
                forget_field a (logged
                  (Databases_createDocument (DATABASE_ID e) (COLLECTION_USERS e) userId payload) w))) \<and>
   (createUserDocument fuel b e userId payload w = Some (Inr doc, w') \<and> payload \<noteq> []
    \<longrightarrow> (\<exists>pre p. p \<noteq> [] \<and>
           w_trace w' =
             pre @ [Databases_createDocument (DATABASE_ID e) (COLLECTION_USERS e) userId p] \<and>
           reply_document b pre
             (Databases_createDocument (DATABASE_ID e) (COLLECTION_USERS e) userId p) = Inr doc)) \<and>
   (remaining \<noteq> [] \<and>
    reply_document b (w_trace w)
       (Databases_updateDocument (DATABASE_ID e) (COLLECTION_USERS e) accountId remaining)
      = Inl error' \<and>
    extractUnknownAttribute error' = Some a' \<and> delete_key a' remaining = []
    \<longrightarrow> updateProfile_loop (Suc (Suc fuel)) b e accountId remaining w =
          Some (case reply_document b
                       (w_trace w @
                          [Databases_updateDocument (DATABASE_ID e) (COLLECTION_USERS e) accountId
                             remaining])
                       (Databases_getDocument (DATABASE_ID e) (COLLECTION_USERS e) accountId) of
                  Inl error \<Rightarrow> Inl error
                | Inr existingDoc \<Rightarrow> Inr (mapUserDocument existingDoc),
                logged (Databases_getDocument (DATABASE_ID e) (COLLECTION_USERS e) accountId)
                  (forget_field a' (logged
                     (Databases_updateDocument (DATABASE_ID e) (COLLECTION_USERS e) accountId
                        remaining) w))))"
proof (intro conjI impI)
  assume "reply_document b (w_trace w)
       (Databases_createDocument (DATABASE_ID e) (COLLECTION_USERS e) userId payload) = Inl error \<and>
    extractUnknownAttribute error = Some a \<and> a \<notin> set [''name'', ''email'', ''createdBy''] \<and>
    delete_key a payload = []"
  then show "createUserDocument (Suc fuel) b e userId payload w =
          Some (Inl no_valid_fields,
                forget_field a (logged
                  (Databases_createDocument (DATABASE_ID e) (COLLECTION_USERS e) userId payload) w))"
    by (auto simp: Let_def)
next
  assume "createUserDocument fuel b e userId payload w = Some (Inr doc, w') \<and> payload \<noteq> []"
  then show "\<exists>pre p. p \<noteq> [] \<and>
           w_trace w' =
             pre @ [Databases_createDocument (DATABASE_ID e) (COLLECTION_USERS e) userId p] \<and>
           reply_document b pre
             (Databases_createDocument (DATABASE_ID e) (COLLECTION_USERS e) userId p) = Inr doc"
    using createUserDocument_success by blast
next
  assume h: "remaining \<noteq> [] \<and>
    reply_document b (w_trace w)
       (Databases_updateDocument (DATABASE_ID e) (COLLECTION_USERS e) accountId remaining)
      = Inl error' \<and>
    extractUnknownAttribute error' = Some a' \<and> delete_key a' remaining = []"
  then have "updateProfile_loop (Suc (Suc fuel)) b e accountId remaining w =
      updateProfile_loop (Suc fuel) b e accountId (delete_key a' remaining)
        (forget_field a' (logged
           (Databases_updateDocument (DATABASE_ID e) (COLLECTION_USERS e) accountId remaining) w))"
    by (intro updateProfile_loop_retry) blast+
  with h show "updateProfile_loop (Suc (Suc fuel)) b e accountId remaining w =
          Some (case reply_document b
                       (w_trace w @
                          [Databases_updateDocument (DATABASE_ID e) (COLLECTION_USERS e) accountId
                             remaining])
                       (Databases_getDocument (DATABASE_ID e) (COLLECTION_USERS e) accountId) of
                  Inl error \<Rightarrow> Inl error
                | Inr existingDoc \<Rightarrow> Inr (mapUserDocument existingDoc),
                logged (Databases_getDocument (DATABASE_ID e) (COLLECTION_USERS e) accountId)
                  (forget_field a' (logged
                     (Databases_updateDocument (DATABASE_ID e) (COLLECTION_USERS e) accountId
                        remaining) w)))"
    by (simp only: updateProfile_loop_empty w_trace_forget_field w_trace_logged)
qed

lemma example_read_reply:
  "reply_document (backend_lacking missing) tr (Databases_getDocument db coll docId) =
     Inr (stored_document docId [(''email'', JStr ''ada@example.org'')])"
  by (simp add: backend_lacking_def)

lemma example_creation:
  "\<exists>w'. createUserDocument 3 (backend_lacking [''bio'']) example_env ''u1''
      [(''name'', JStr ''Ada''), (''bio'', JStr ''Hello'')] initial_world =
    Some (Inr (stored_document ''u1'' [(''name'', JStr ''Ada'')]), w')"
  by (simp add: numeral_3_eq_3 backend_lacking_def write_reply_def extract_bio delete_key_def
      Let_def)

theorem emptied_payload_outcome_witness:
  "createUserDocument 1 (backend_lacking [''bio'']) example_env ''u1'' [(''bio'', JStr ''Hello'')]
       initial_world =
     Some (Inl no_valid_fields,
           forget_field ''bio'' (logged
             (Databases_createDocument (DATABASE_ID example_env) (COLLECTION_USERS example_env)
                ''u1'' [(''bio'', JStr ''Hello'')]) initial_world)) \<and>
   (\<exists>w' pre p.
      createUserDocument 3 (backend_lacking [''bio'']) example_env ''u1''
        [(''name'', JStr ''Ada''), (''bio'', JStr ''Hello'')] initial_world =
        Some (Inr (stored_document ''u1'' [(''name'', JStr ''Ada'')]), w') \<and>
      p \<noteq> [] \<and>
      w_trace w' =
        pre @ [Databases_createDocument (DATABASE_ID example_env) (COLLECTION_USERS example_env)
                 ''u1'' p]) \<and>
   updateProfile_loop 2 (backend_lacking [''bio'']) example_env ''u1'' [(''bio'', JStr ''Hello'')]
       initial_world =
     Some (Inr (mapUserDocument (stored_document ''u1'' [(''email'', JStr ''ada@example.org'')])),
           logged (Databases_getDocument (DATABASE_ID example_env) (COLLECTION_USERS example_env)
                     ''u1'')
             (forget_field ''bio'' (logged
                (Databases_updateDocument (DATABASE_ID example_env) (COLLECTION_USERS example_env)
                   ''u1'' [(''bio'', JStr ''Hello'')]) initial_world)))"
proof (intro conjI)
  let ?P = "[(''name'', JStr ''Ada''), (''bio'', JStr ''Hello'')]"
  have one: "Suc 0 = 1" and two: "Suc (Suc 0) = 2" by simp_all
  have other: "''bio'' \<notin> set [''name'', ''email'', ''createdBy'']" by simp
  have nonempty: "[(''bio'', JStr ''Hello'')] \<noteq> []" "?P \<noteq> []" by simp_all
  note create_case = emptied_payload_outcome [where b = "backend_lacking [''bio'']"
      and w = initial_world and e = example_env and userId = "''u1''"
      and payload = "[(''bio'', JStr ''Hello'')]"
      and error = "unknown_attribute_error ''bio''" and a = "''bio''" and fuel = 0,
      unfolded one, THEN conjunct1, rule_format]
  show "createUserDocument 1 (backend_lacking [''bio'']) example_env ''u1''
       [(''bio'', JStr ''Hello'')] initial_world =
     Some (Inl no_valid_fields,
           forget_field ''bio'' (logged
             (Databases_createDocument (DATABASE_ID example_env) (COLLECTION_USERS example_env)
                ''u1'' [(''bio'', JStr ''Hello'')]) initial_world))"
    by (rule create_case)
      (intro conjI example_write_replies(3) extract_bio other example_deletions(2))
  from example_creation obtain w' where
    run: "createUserDocument 3 (backend_lacking [''bio'']) example_env ''u1'' ?P initial_world =
      Some (Inr (stored_document ''u1'' [(''name'', JStr ''Ada'')]), w')"
    by (elim exE)
  from emptied_payload_outcome [where b = "backend_lacking [''bio'']" and w = initial_world
      and e = example_env and userId = "''u1''" and payload = ?P and fuel = 3
      and doc = "stored_document ''u1'' [(''name'', JStr ''Ada'')]" and w' = w',
      THEN conjunct2, THEN conjunct1, rule_format, OF conjI [OF run nonempty(2)]]
  obtain pre p where "p \<noteq> []"
    "w_trace w' =
       pre @ [Databases_createDocument (DATABASE_ID example_env) (COLLECTION_USERS example_env)
                ''u1'' p]"
    by (elim exE conjE)
  with run show "\<exists>w' pre p.
      createUserDocument 3 (backend_lacking [''bio'']) example_env ''u1'' ?P initial_world =
        Some (Inr (stored_document ''u1'' [(''name'', JStr ''Ada'')]), w') \<and>
      p \<noteq> [] \<and>
      w_trace w' =
        pre @ [Databases_createDocument (DATABASE_ID example_env) (COLLECTION_USERS example_env)
                 ''u1'' p]"
    by (intro exI conjI)
  note update_case = emptied_payload_outcome [where b = "backend_lacking [''bio'']"
      and w = initial_world and e = example_env and accountId = "''u1''"
      and remaining = "[(''bio'', JStr ''Hello'')]"
      and error' = "unknown_attribute_error ''bio''" and a' = "''bio''" and fuel = 0,
      unfolded two, THEN conjunct2, THEN conjunct2, rule_format]
  have "updateProfile_loop 2 (backend_lacking [''bio'']) example_env ''u1''
       [(''bio'', JStr ''Hello'')] initial_world =
     Some (case reply_document (backend_lacking [''bio''])
                  (w_trace initial_world @
                     [Databases_updateDocument (DATABASE_ID example_env)
                        (COLLECTION_USERS example_env) ''u1'' [(''bio'', JStr ''Hello'')]])
                  (Databases_getDocument (DATABASE_ID example_env) (COLLECTION_USERS example_env)
                     ''u1'') of
             Inl error \<Rightarrow> Inl error
           | Inr existingDoc \<Rightarrow> Inr (mapUserDocument existingDoc),
           logged (Databases_getDocument (DATABASE_ID example_env) (COLLECTION_USERS example_env)
                     ''u1'')
             (forget_field ''bio'' (logged
                (Databases_updateDocument (DATABASE_ID example_env) (COLLECTION_USERS example_env)
                   ''u1'' [(''bio'', JStr ''Hello'')]) initial_world)))"
    by (rule update_case)
      (intro conjI nonempty(1) example_write_replies(4) extract_bio example_deletions(2))
  then show "updateProfile_loop 2 (backend_lacking [''bio'']) example_env ''u1''
       [(''bio'', JStr ''Hello'')] initial_world =
     Some (Inr (mapUserDocument (stored_document ''u1'' [(''email'', JStr ''ada@example.org'')])),
           logged (Databases_getDocument (DATABASE_ID example_env) (COLLECTION_USERS example_env)
                     ''u1'')
             (forget_field ''bio'' (logged
                (Databases_updateDocument (DATABASE_ID example_env) (COLLECTION_USERS example_env)
                   ''u1'' [(''bio'', JStr ''Hello'')]) initial_world)))"
    by (simp only: example_read_reply sum.case)
qed

text \<open>
  Claim C3 fails as stated: when stripping empties the update, \<^verbatim>\<open>updateProfile\<close>
  returns a value, the mapping of the existing document.
\<close>

theorem update_emptied_returns_counterexample:
  "reply_document (backend_lacking [''bio'']) [Account_get]
      (Databases_updateDocument ''main'' ''users'' ''u1'' [(''bio'', JStr ''Hello'')])
     = Inl (unknown_attribute_error ''bio'') \<and>
   delete_key ''bio'' [(''bio'', JStr ''Hello'')] = [] \<and>
   map_option fst (updateProfile 2 (backend_lacking [''bio'']) example_env
      [(''bio'', JStr ''Hello'')] initial_world)
     = Some (Inr (mapUserDocument (stored_document ''u1'' [(''email'', JStr ''ada@example.org'')])))"
  by (simp add: updateProfile_def numeral_2_eq_2 backend_lacking_def extract_bio example_defs)

text \<open>
  Claim C8, as amended. Once a write has removed a field from its payload because the
  backend named it as unknown (in \<^verbatim>\<open>updateProfile\<close> any named field, in
  \<^verbatim>\<open>createUserDocument\<close> any named field other than \<^verbatim>\<open>name\<close>, \<^verbatim>\<open>email\<close> and
  \<^verbatim>\<open>createdBy\<close>), the field is outside the session's set of updatable fields when the
  write returns and after every later request of the session, and no sanitized payload
  built from then on contains it. The set of updatable fields never grows.
\<close>

theorem stripped_field_stays_forgotten:
  "(remaining \<noteq> [] \<and>
    reply_document b (w_trace w)
       (Databases_updateDocument (DATABASE_ID e) (COLLECTION_USERS e) accountId remaining)
      = Inl error \<and>
    extractUnknownAttribute error = Some a \<and>
    updateProfile_loop fuel b e accountId remaining w = Some (r, w1) \<and>
    session fuel' b' e' requests w1 = Some w2
    \<longrightarrow> \<not> isUserUpdatableField w2 a \<and> a \<notin> fst ` set (sanitizeUserUpdateData w2 data)) \<and>
   (reply_document b (w_trace w)
       (Databases_createDocument (DATABASE_ID e) (COLLECTION_USERS e) userId payload) = Inl error' \<and>
    extractUnknownAttribute error' = Some a' \<and> a' \<notin> set [''name'', ''email'', ''createdBy''] \<and>
    createUserDocument fuel b e userId payload w = Some (r', w1') \<and>
    session fuel' b' e' requests w1' = Some w2'
    \<longrightarrow> \<not> isUserUpdatableField w2' a' \<and> a' \<notin> fst ` set (sanitizeUserUpdateData w2' data)) \<and>
   (session fuel' b' e' requests w = Some w3
    \<longrightarrow> set (USER_UPDATE_FIELDS w3) \<subseteq> set (USER_UPDATE_FIELDS w))"
proof (intro conjI impI)
  assume h: "remaining \<noteq> [] \<and>
    reply_document b (w_trace w)
       (Databases_updateDocument (DATABASE_ID e) (COLLECTION_USERS e) accountId remaining)
      = Inl error \<and>
    extractUnknownAttribute error = Some a \<and>
    updateProfile_loop fuel b e accountId remaining w = Some (r, w1) \<and>
    session fuel' b' e' requests w1 = Some w2"
  then have "a \<notin> set (USER_UPDATE_FIELDS w1)"
    by (intro updateProfile_loop_forgets [of remaining b w e accountId error a fuel r w1]) blast+
  moreover from h have "set (USER_UPDATE_FIELDS w2) \<subseteq> set (USER_UPDATE_FIELDS w1)"
    by (intro session_fields [of fuel' b' e' requests w1 w2]) blast
  ultimately have gone: "a \<notin> set (USER_UPDATE_FIELDS w2)" by blast
  then show "\<not> isUserUpdatableField w2 a" by (simp add: isUserUpdatableField_def)
  from gone show "a \<notin> fst ` set (sanitizeUserUpdateData w2 data)"
    using sanitize_keys [of a w2 data] by blast
next
  assume h: "reply_document b (w_trace w)
       (Databases_createDocument (DATABASE_ID e) (COLLECTION_USERS e) userId payload) = Inl error' \<and>
    extractUnknownAttribute error' = Some a' \<and> a' \<notin> set [''name'', ''email'', ''createdBy''] \<and>
    createUserDocument fuel b e userId payload w = Some (r', w1') \<and>
    session fuel' b' e' requests w1' = Some w2'"
  then have "a' \<notin> set (USER_UPDATE_FIELDS w1')"
    by (intro createUserDocument_forgets [of b w e userId payload error' a' fuel r' w1']) blast+
  moreover from h have "set (USER_UPDATE_FIELDS w2') \<subseteq> set (USER_UPDATE_FIELDS w1')"
    by (intro session_fields [of fuel' b' e' requests w1' w2']) blast
  ultimately have gone: "a' \<notin> set (USER_UPDATE_FIELDS w2')" by blast
  then show "\<not> isUserUpdatableField w2' a'" by (simp add: isUserUpdatableField_def)
  from gone show "a' \<notin> fst ` set (sanitizeUserUpdateData w2' data)"
    using sanitize_keys [of a' w2' data] by blast
next
  assume "session fuel' b' e' requests w = Some w3"
  then show "set (USER_UPDATE_FIELDS w3) \<subseteq> set (USER_UPDATE_FIELDS w)"
    by (rule session_fields)
qed

theorem stripped_field_stays_forgotten_witness:
  "(\<exists>r w1 w2.
      updateProfile_loop 3 (backend_lacking [''bio'']) example_env ''u1''
        [(''name'', JStr ''Ada''), (''bio'', JStr ''Hello'')] initial_world = Some (r, w1) \<and>
      session 3 (backend_lacking [''bio'']) example_env
        [UpdateProfile [(''bio'', JStr ''Again''), (''location'', JStr ''Paris'')]] w1 = Some w2 \<and>
      \<not> isUserUpdatableField w2 ''bio'' \<and>
      ''bio'' \<notin> fst ` set (sanitizeUserUpdateData w2
                 [(''bio'', JStr ''Again''), (''location'', JStr ''Paris'')]) \<and>
      set (USER_UPDATE_FIELDS w2) \<subseteq> set (USER_UPDATE_FIELDS w1)) \<and>
   (\<exists>r w1 w2.
      createUserDocument 3 (backend_lacking [''bio'']) example_env ''u1''
        [(''name'', JStr ''Ada''), (''bio'', JStr ''Hello'')] initial_world = Some (r, w1) \<and>
      session 3 (backend_lacking [''bio'']) example_env
        [UpdateProfile [(''bio'', JStr ''Again''), (''location'', JStr ''Paris'')]] w1 = Some w2 \<and>
      \<not> isUserUpdatableField w2 ''bio'' \<and>
      ''bio'' \<notin> fst ` set (sanitizeUserUpdateData w2
                 [(''bio'', JStr ''Again''), (''location'', JStr ''Paris'')]))"
proof (intro conjI)
  let ?B = "backend_lacking [''bio'']"
  let ?P = "[(''name'', JStr ''Ada''), (''bio'', JStr ''Hello'')]"
  let ?D = "[(''bio'', JStr ''Again''), (''location'', JStr ''Paris'')]"
  have short: "length ?P < 3" by simp
  have three: "Suc (length ?D) = 3" by simp
  have other: "''bio'' \<notin> set [''name'', ''email'', ''createdBy'']" by simp
  have nonempty: "?P \<noteq> []" by simp
  have later: "\<exists>w2. session 3 ?B example_env [UpdateProfile ?D] w1 = Some w2" for w1
  proof -
    from updateProfile_terminates [OF drift_honest_lacking_bio, of ?D example_env w1]
    obtain r2 w2 where "updateProfile 3 ?B example_env ?D w1 = Some (r2, w2)"
      unfolding three by blast
    then have "session 3 ?B example_env [UpdateProfile ?D] w1 = Some w2"
      by (simp add: perform_def)
    then show ?thesis by (rule exI)
  qed
  from updateProfile_loop_terminates [OF drift_honest_lacking_bio short]
  obtain r w1 where run: "updateProfile_loop 3 ?B example_env ''u1'' ?P initial_world = Some (r, w1)"
    by blast
  from later obtain w2 where rest: "session 3 ?B example_env [UpdateProfile ?D] w1 = Some w2"
    by blast
  note t = stripped_field_stays_forgotten [where b = ?B and w = initial_world and e = example_env
      and accountId = "''u1''" and remaining = ?P and error = "unknown_attribute_error ''bio''"
      and a = "''bio''" and fuel = 3 and r = r and ?w1.0 = w1 and fuel' = 3 and b' = ?B
      and e' = example_env and requests = "[UpdateProfile ?D]" and ?w2.0 = w2 and data = ?D]
  have gone: "\<not> isUserUpdatableField w2 ''bio'' \<and>
      ''bio'' \<notin> fst ` set (sanitizeUserUpdateData w2 ?D)"
    by (rule t [THEN conjunct1, rule_format])
      (intro conjI nonempty example_write_replies(2) extract_bio run rest)
  have shrinks: "set (USER_UPDATE_FIELDS w2) \<subseteq> set (USER_UPDATE_FIELDS w1)"
    by (rule stripped_field_stays_forgotten [where fuel' = 3 and b' = ?B and e' = example_env
          and requests = "[UpdateProfile ?D]" and w = w1 and ?w3.0 = w2,
          THEN conjunct2, THEN conjunct2, rule_format]) (rule rest)
  from run rest gone shrinks
  show "\<exists>r w1 w2.
      updateProfile_loop 3 ?B example_env ''u1'' ?P initial_world = Some (r, w1) \<and>
      session 3 ?B example_env [UpdateProfile ?D] w1 = Some w2 \<and>
      \<not> isUserUpdatableField w2 ''bio'' \<and>
      ''bio'' \<notin> fst ` set (sanitizeUserUpdateData w2 ?D) \<and>
      set (USER_UPDATE_FIELDS w2) \<subseteq> set (USER_UPDATE_FIELDS w1)"
    by (intro exI conjI) (elim conjE | assumption)+
  from createUserDocument_terminates [OF drift_honest_lacking_bio short]
  obtain r' w1' where
    run': "createUserDocument 3 ?B example_env ''u1'' ?P initial_world = Some (r', w1')"
    by blast
  from later obtain w2' where rest': "session 3 ?B example_env [UpdateProfile ?D] w1' = Some w2'"
    by blast
  have gone': "\<not> isUserUpdatableField w2' ''bio'' \<and>
      ''bio'' \<notin> fst ` set (sanitizeUserUpdateData w2' ?D)"
    by (rule stripped_field_stays_forgotten [where b = ?B and w = initial_world
          and e = example_env and userId = "''u1''" and payload = ?P
          and error' = "unknown_attribute_error ''bio''" and a' = "''bio''" and fuel = 3
          and r' = r' and w1' = w1' and fuel' = 3 and b' = ?B and e' = example_env
          and requests = "[UpdateProfile ?D]" and w2' = w2' and data = ?D,
          THEN conjunct2, THEN conjunct1, rule_format])
      (intro conjI example_write_replies(1) extract_bio other run' rest')
  from run' rest' gone'
  show "\<exists>r w1 w2.
      createUserDocument 3 ?B example_env ''u1'' ?P initial_world = Some (r, w1) \<and>
      session 3 ?B example_env [UpdateProfile ?D] w1 = Some w2 \<and>
      \<not> isUserUpdatableField w2 ''bio'' \<and>
      ''bio'' \<notin> fst ` set (sanitizeUserUpdateData w2 ?D)"
    by (intro exI conjI) (elim conjE | assumption)+
qed

text \<open>
  Claim C8 fails as stated: when \<^verbatim>\<open>createUserDocument\<close> finds \<^verbatim>\<open>name\<close> unknown it
  propagates the failure and leaves the set of updatable fields as it was, so the next
  sanitized update still contains \<^verbatim>\<open>name\<close>.
\<close>

theorem mandatory_name_rediscovered_counterexample:
  "map_option fst (createUserDocument 1 (backend_lacking [''name'']) example_env ''u1''
       [(''name'', JStr ''Ada''), (''email'', JStr ''ada@example.org''), (''createdBy'', JStr ''u1'')]
       initial_world)
     = Some (Inl (unknown_attribute_error ''name'')) \<and>
   extractUnknownAttribute (unknown_attribute_error ''name'') = Some ''name'' \<and>
   map_option (\<lambda>(r, w'). sanitizeUserUpdateData w' [(''name'', JStr ''Ada'')])
     (createUserDocument 1 (backend_lacking [''name'']) example_env ''u1''
       [(''name'', JStr ''Ada''), (''email'', JStr ''ada@example.org''), (''createdBy'', JStr ''u1'')]
       initial_world)
     = Some [(''name'', JStr ''Ada'')]"
  by (simp add: backend_lacking_def extract_name example_defs)


section \<open>Properties of the session and profile manager\<close>

subsection \<open>Requests issued by the parts of login\<close>

lemma extends_refl [simp]: "extends w w"
  by (simp add: extends_def)

lemma extends_trans: "extends w w1 \<Longrightarrow> extends w1 w2 \<Longrightarrow> extends w w2"
  by (auto simp: extends_def)

lemma extends_logged [simp]: "extends w (logged c w)"
  by (simp add: extends_def)

lemma extends_logged_left: "extends (logged c w) w' \<Longrightarrow> extends w w'"
  by (auto simp: extends_def)

lemma getCurrentUser_calls:
  "\<exists>cs. w_trace (snd (getCurrentUser b e w)) = w_trace w @ cs \<and> \<not> list_ex touches_sessions cs"
  by (simp add: getCurrentUser_def Let_def split: option.splits sum.splits)

lemma getCurrentUser_extends: "getCurrentUser b e w = (r, w') \<Longrightarrow> extends w w'"
  using getCurrentUser_calls [of b e w] by (auto simp: extends_def)

lemma createUserDocument_extends:
  "createUserDocument fuel b e userId payload w = Some (r, w') \<Longrightarrow> extends w w'"
  using createUserDocument_identity [of fuel b e userId payload w r w' payload]
  by (auto simp: extends_def)

lemma login_create_document_extends:
  "login_create_document fuel b e w = Some (r, w') \<Longrightarrow> extends w w'"
proof -
  assume a: "login_create_document fuel b e w = Some (r, w')"
  show ?thesis
  proof (cases "reply_account b (w_trace w) Account_get")
    case (Inl error)
    with a show ?thesis by (auto simp: login_create_document_def)
  next
    case (Inr accountData)
    let ?p = "[(''email'', JStr (acc_email accountData)), (''name'', JStr (acc_name accountData)),
               (''createdBy'', JStr (acc_id accountData))]"
    show ?thesis
    proof (cases "createUserDocument fuel b e (acc_id accountData) ?p (logged Account_get w)")
      case None
      with a Inr show ?thesis by (simp add: login_create_document_def)
    next
      case (Some res)
      obtain r1 w1 where res: "res = (r1, w1)" by (cases res)
      from createUserDocument_extends [OF Some [unfolded res]]
      have sub: "extends w w1" by (rule extends_logged_left)
      show ?thesis
      proof (cases r1)
        case (Inl err)
        with a Inr Some res sub show ?thesis by (auto simp: login_create_document_def)
      next
        case r1: (Inr userDoc)
        obtain r2 w2 where g: "getCurrentUser b e w1 = (r2, w2)" by (cases "getCurrentUser b e w1")
        then have "extends w1 w2" by (rule getCurrentUser_extends)
        with sub have "extends w w2" by (rule extends_trans)
        with a Inr Some res r1 g show ?thesis
          by (auto simp: login_create_document_def split: sum.splits option.splits)
      qed
    qed
  qed
qed

lemma login_after_session_extends:
  "login_after_session fuel b e w = Some (r, w') \<Longrightarrow> extends w w'"
proof -
  assume a: "login_after_session fuel b e w = Some (r, w')"
  obtain r1 w1 where g: "getCurrentUser b e w = (r1, w1)" by (cases "getCurrentUser b e w")
  then have f: "extends w w1" by (rule getCurrentUser_extends)
  from a g f show ?thesis
    by (auto simp: login_after_session_def split: sum.splits option.splits
        dest!: login_create_document_extends intro: extends_trans)
qed

lemma login_new_session_calls:
  "login_new_session fuel b e email password w = Some (r, w') \<Longrightarrow>
   \<exists>rest. w_trace w' = w_trace w @ Account_createEmailPasswordSession email password # rest"
  unfolding login_new_session_def Let_def
  by (auto split: option.splits dest!: login_after_session_extends simp: extends_def)

lemma logoutAllSessions_world:
  "snd (logoutAllSessions b w) = logged Account_deleteSessions w"
  by (simp add: logoutAllSessions_def split: option.splits)

subsection \<open>The login policy\<close>

text \<open>
  Claim C7, as amended. A session exists when \<^verbatim>\<open>account.get\<close> succeeds; it is a session
  of the identity requesting login when its profile document is found and carries the
  login email. In that case login returns that profile and issues no request that
  creates or deletes a session. Otherwise, when a session exists and login goes on, it
  requests the deletion of all sessions immediately before it requests the new session,
  and it requests the new session whether or not the deletion succeeded.
\<close>

theorem login_policy:
  "(reply_account b (w_trace w) Account_get = Inr accountData \<and>
    getCurrentUser b e (logged Account_get w) = (Inr (Some user), w2) \<and>
    u_email user = JStr email
    \<longrightarrow> login fuel b e email password w = Some (Inr user, w2) \<and>
        \<not> list_ex touches_sessions (new_calls w w2)) \<and>
   (reply_account b (w_trace w) Account_get = Inr accountData \<and>
    getCurrentUser b e (logged Account_get w) = (Inr currentUser, w2) \<and>
    (\<forall>user. currentUser = Some user \<longrightarrow> u_email user \<noteq> JStr email) \<and>
    login fuel b e email password w = Some (r, w')
    \<longrightarrow> \<not> list_ex touches_sessions (new_calls w w2) \<and>
        (\<exists>rest. new_calls w w' =
           new_calls w w2 @
           [Account_deleteSessions, Account_createEmailPasswordSession email password] @ rest))"
proof (intro conjI impI)
  assume h: "reply_account b (w_trace w) Account_get = Inr accountData \<and>
    getCurrentUser b e (logged Account_get w) = (Inr (Some user), w2) \<and>
    u_email user = JStr email"
  then show "login fuel b e email password w = Some (Inr user, w2)"
    by (simp add: login_def login_body_def isLoggedIn_def)
  from h getCurrentUser_calls [of b e "logged Account_get w"]
  show "\<not> list_ex touches_sessions (new_calls w w2)"
    by (auto simp: new_calls_def)
next
  assume h: "reply_account b (w_trace w) Account_get = Inr accountData \<and>
    getCurrentUser b e (logged Account_get w) = (Inr currentUser, w2) \<and>
    (\<forall>user. currentUser = Some user \<longrightarrow> u_email user \<noteq> JStr email) \<and>
    login fuel b e email password w = Some (r, w')"
  from h getCurrentUser_calls [of b e "logged Account_get w"]
  obtain cs where cs: "w_trace w2 = w_trace w @ Account_get # cs"
    and quiet: "\<not> list_ex touches_sessions cs"
    by auto
  from cs quiet show "\<not> list_ex touches_sessions (new_calls w w2)"
    by (simp add: new_calls_def)
  from h have body: "login_body fuel b e email password w =
      login_new_session fuel b e email password (logged Account_deleteSessions w2)"
    by (cases currentUser) (simp_all add: login_body_def isLoggedIn_def logoutAllSessions_world)
  from h obtain r0 where
    "login_new_session fuel b e email password (logged Account_deleteSessions w2) = Some (r0, w')"
    unfolding login_def body by (auto split: option.splits sum.splits prod.splits)
  from login_new_session_calls [OF this] obtain rest where
    "w_trace w' = w_trace (logged Account_deleteSessions w2)
        @ Account_createEmailPasswordSession email password # rest"
    by blast
  with cs show "\<exists>rest. new_calls w w' =
           new_calls w w2 @
           [Account_deleteSessions, Account_createEmailPasswordSession email password] @ rest"
    by (simp add: new_calls_def)
qed

lemmas login_defs =
  login_def login_body_def login_new_session_def login_after_session_def isLoggedIn_def
  getCurrentUser_def logoutAllSessions_def backend_two_accounts_def other_account_def
  stored_document_def mapUserDocument_def js_or_def new_Error_def

lemma example_current_user:
  "getCurrentUser (backend_two_accounts deleteReply) example_env (logged Account_get initial_world) =
     (Inr (Some (mapUserDocument (stored_document ''u1'' [(''email'', JStr ''ada@example.org'')]))),
      logged (Databases_getDocument ''main'' ''users'' ''u1'')
        (logged Account_get (logged Account_get initial_world)))"
  by (simp add: getCurrentUser_def backend_two_accounts_def example_defs)

lemma example_email:
  "u_email (mapUserDocument (stored_document ''u1'' [(''email'', JStr ''ada@example.org'')])) =
     JStr ''ada@example.org''"
  by (simp add: mapUserDocument_def stored_document_def attr_def js_or_def)

lemma example_login:
  "\<exists>w'. login 1 (backend_two_accounts None) example_env ''grace@example.org'' ''pw'' initial_world =
     Some (Inr (mapUserDocument (stored_document ''u2'' [(''email'', JStr ''grace@example.org'')])),
           w')"
  by (simp add: login_defs example_defs)

theorem login_policy_witness:
  "login 1 (backend_two_accounts None) example_env ''ada@example.org'' ''pw'' initial_world =
     Some (Inr (mapUserDocument (stored_document ''u1'' [(''email'', JStr ''ada@example.org'')])),
           logged (Databases_getDocument ''main'' ''users'' ''u1'')
             (logged Account_get (logged Account_get initial_world))) \<and>
   (\<exists>w' rest.
      login 1 (backend_two_accounts None) example_env ''grace@example.org'' ''pw'' initial_world =
        Some (Inr (mapUserDocument (stored_document ''u2'' [(''email'', JStr ''grace@example.org'')])),
              w') \<and>
      new_calls initial_world w' =
        new_calls initial_world
          (logged (Databases_getDocument ''main'' ''users'' ''u1'')
             (logged Account_get (logged Account_get initial_world))) @
        [Account_deleteSessions,
         Account_createEmailPasswordSession ''grace@example.org'' ''pw''] @ rest)"
proof (intro conjI)
  let ?B = "backend_two_accounts None"
  let ?U = "mapUserDocument (stored_document ''u1'' [(''email'', JStr ''ada@example.org'')])"
  let ?G = "mapUserDocument (stored_document ''u2'' [(''email'', JStr ''grace@example.org'')])"
  let ?W2 = "logged (Databases_getDocument ''main'' ''users'' ''u1'')
        (logged Account_get (logged Account_get initial_world))"
  have session: "reply_account ?B (w_trace initial_world) Account_get = Inr example_account"
    by (simp add: backend_two_accounts_def initial_world_def)
  show "login 1 ?B example_env ''ada@example.org'' ''pw'' initial_world = Some (Inr ?U, ?W2)"
    by (rule login_policy [where b = ?B and w = initial_world and e = example_env
          and accountData = example_account and user = ?U and ?w2.0 = ?W2
          and email = "''ada@example.org''" and fuel = 1 and password = "''pw''",
          THEN conjunct1, rule_format, THEN conjunct1])
      (intro conjI session example_current_user example_email)
  from example_login obtain w' where
    run: "login 1 ?B example_env ''grace@example.org'' ''pw'' initial_world = Some (Inr ?G, w')"
    by (elim exE)
  have differs: "\<forall>user. Some ?U = Some user \<longrightarrow> u_email user \<noteq> JStr ''grace@example.org''"
    by (simp add: example_email)
  have "\<not> list_ex touches_sessions (new_calls initial_world ?W2) \<and>
      (\<exists>rest. new_calls initial_world w' =
         new_calls initial_world ?W2 @
         [Account_deleteSessions,
          Account_createEmailPasswordSession ''grace@example.org'' ''pw''] @ rest)"
    by (rule login_policy [where b = ?B and w = initial_world and e = example_env
          and accountData = example_account and currentUser = "Some ?U" and ?w2.0 = ?W2
          and email = "''grace@example.org''" and fuel = 1 and password = "''pw''"
          and r = "Inr ?G" and w' = w', THEN conjunct2, rule_format])
      (intro conjI session example_current_user differs run)
  then obtain rest where "new_calls initial_world w' =
         new_calls initial_world ?W2 @
         [Account_deleteSessions,
          Account_createEmailPasswordSession ''grace@example.org'' ''pw''] @ rest"
    by (elim conjE exE)
  with run show "\<exists>w' rest.
      login 1 ?B example_env ''grace@example.org'' ''pw'' initial_world = Some (Inr ?G, w') \<and>
      new_calls initial_world w' =
        new_calls initial_world ?W2 @
        [Account_deleteSessions,
         Account_createEmailPasswordSession ''grace@example.org'' ''pw''] @ rest"
    by (intro exI conjI)
qed

text \<open>
  Claim C7 fails as stated: the backend refuses to delete the sessions of the first
  account, and login still requests, and obtains, a session for the second.
\<close>

theorem login_after_failed_invalidation_counterexample:
  "reply_void (backend_two_accounts (Some (new_Error ''Network request failed'')))
      [Account_get, Account_get, Databases_getDocument ''main'' ''users'' ''u1'']
      Account_deleteSessions
     = Some (new_Error ''Network request failed'') \<and>
   map_option (\<lambda>(r, w'). (r, w_trace w'))
     (login 1 (backend_two_accounts (Some (new_Error ''Network request failed''))) example_env
        ''grace@example.org'' ''pw'' initial_world)
     = Some (Inr (mapUserDocument
                    (stored_document ''u2'' [(''email'', JStr ''grace@example.org'')])),
             [Account_get, Account_get, Databases_getDocument ''main'' ''users'' ''u1'',
              Account_deleteSessions,
              Account_createEmailPasswordSession ''grace@example.org'' ''pw'',
              Account_get, Databases_getDocument ''main'' ''users'' ''u2''])"
  by (simp add: login_defs example_defs)

subsection \<open>Reading a profile that does not exist\<close>

text \<open>
  Claim C9. When the configuration is valid and the backend answers the read of the
  profile document with a not-found failure, the read returns \<^verbatim>\<open>null\<close> instead of
  raising: \<^verbatim>\<open>getUserProfile\<close> for a failure whose code is 404, \<^verbatim>\<open>getCurrentUser\<close>
  for a failure whose message says that the document could not be found (and is not one
  of the three configuration messages it rethrows).
\<close>

theorem not_found_gives_null:
  "(validateConfig e = None \<and>
    reply_document b (w_trace w)
      (Databases_getDocument (DATABASE_ID e) (COLLECTION_USERS e) userId) = Inl error \<and>
    err_code error = Some 404
    \<longrightarrow> fst (getUserProfile b e userId w) = Inr None) \<and>
   (validateConfig e = None \<and>
    reply_account b (w_trace w) Account_get = Inr accountData \<and>
    reply_document b (w_trace w @ [Account_get])
      (Databases_getDocument (DATABASE_ID e) (COLLECTION_USERS e) (acc_id accountData))
      = Inl error' \<and>
    message_includes error' ''Document with the requested ID could not be found'' \<and>
    \<not> message_includes error' ''Missing required environment variables'' \<and>
    \<not> message_includes error' ''Collection with the requested ID could not be found'' \<and>
    \<not> message_includes error' ''Database with the requested ID could not be found''
    \<longrightarrow> fst (getCurrentUser b e w) = Inr None)"
  by (simp add: getUserProfile_def getUserProfile_catch_def getCurrentUser_def
      getCurrentUser_catch_def Let_def)

theorem not_found_gives_null_witness:
  "fst (getUserProfile backend_not_found example_env ''nobody'' initial_world) = Inr None \<and>
   fst (getCurrentUser backend_not_found example_env initial_world) = Inr None"
  using not_found_gives_null [of example_env backend_not_found initial_world "''nobody''"
      document_not_found example_account document_not_found]
  by (simp add: backend_not_found_def document_not_found_def message_includes_def
      validateConfig_example)

end
